theory Spec2Isabelle
  imports Main "HOL-Library.AList" "HOL-Library.Char_ord" "HOL-Library.List_Lexorder"
begin

section \<open>A GraphQL client over HTTP: the request pipeline\<close>

text \<open>
  The development embeds the Go package \<^verbatim>\<open>graphql\<close>: the request value object
  (\<^verbatim>\<open>graphql_request.go\<close>), the client with its two encoders and its response decoding,
  and the error model. The package is present in two calling conventions: the unified one,
  \<^verbatim>\<open>Run(ctx, req, graphqlResponse) (*GraphResponse, error)\<close>, and the older two-target one,
  \<^verbatim>\<open>Run(ctx, req, resp, errorResp) error\<close>. Both are embedded; the older one carries the
  suffix \<open>_legacy\<close>.

  The standard library is not part of the package, so its wire formats are kept abstract:
  a JSON text is represented by its syntax tree, a multipart body by its list of parts, and
  a byte stream by what reading it to the end yields.
\<close>

subsection \<open>JSON values and Go values\<close>

text \<open>
  \<open>JNum n\<close> is a number literal without fraction or exponent; \<open>JReal m e\<close> is any other
  number literal, with the value \<open>m\<close> times ten to the power \<open>e\<close>. A string is the byte
  sequence the text denotes. The members of an object are kept in the order of the text,
  duplicates included.
\<close>

datatype json =
    JNull
  | JBool bool
  | JNum int
  | JReal int int
  | JStr string
  | JArr "json list"
  | JObj "(string \<times> json) list"

subsection \<open>What \<^verbatim>\<open>encoding/json\<close> does to strings and numbers\<close>

text \<open>
  \<^verbatim>\<open>utf8.DecodeRuneInString\<close>: the length of the well-formed UTF-8 sequence at the head of a
  string, 0 when there is none (a stray continuation byte, an overlong or truncated sequence,
  a surrogate, a value beyond U+10FFFF).
\<close>

definition between :: "nat \<Rightarrow> nat \<Rightarrow> string \<Rightarrow> nat \<Rightarrow> bool" where
  "between lo hi s i = (i < length s \<and> lo \<le> of_char (s ! i) \<and> (of_char (s ! i) :: nat) \<le> hi)"

definition runeLen :: "string \<Rightarrow> nat" where
  "runeLen s =
     (case s of
        [] \<Rightarrow> 0
      | a # r \<Rightarrow>
          (let x = (of_char a :: nat) in
           if x < 128 then 1
           else if 194 \<le> x \<and> x \<le> 223 then (if between 128 191 r 0 then 2 else 0)
           else if x = 224
             then (if between 160 191 r 0 \<and> between 128 191 r 1 then 3 else 0)
           else if (225 \<le> x \<and> x \<le> 236) \<or> x = 238 \<or> x = 239
             then (if between 128 191 r 0 \<and> between 128 191 r 1 then 3 else 0)
           else if x = 237
             then (if between 128 159 r 0 \<and> between 128 191 r 1 then 3 else 0)
           else if x = 240
             then (if between 144 191 r 0 \<and> between 128 191 r 1 \<and> between 128 191 r 2
                   then 4 else 0)
           else if 241 \<le> x \<and> x \<le> 243
             then (if between 128 191 r 0 \<and> between 128 191 r 1 \<and> between 128 191 r 2
                   then 4 else 0)
           else if x = 244
             then (if between 128 143 r 0 \<and> between 128 191 r 1 \<and> between 128 191 r 2
                   then 4 else 0)
           else 0))"

definition replacementChar :: string where
  "replacementChar = [CHR 0xEF, CHR 0xBF, CHR 0xBD]"

text \<open>
  The encoder writes a string rune by rune and puts U+FFFD in the place of every byte that
  does not start a well-formed sequence. \<open>ValidString\<close> is \<^verbatim>\<open>utf8.ValidString\<close>.
\<close>

function toValidUTF8 :: "string \<Rightarrow> string" where
  "toValidUTF8 s =
     (if s = [] then []
      else if runeLen s = 0 then replacementChar @ toValidUTF8 (tl s)
      else take (runeLen s) s @ toValidUTF8 (drop (runeLen s) s))"
  by pat_completeness auto
termination
  by (relation "measure length") auto

function ValidString :: "string \<Rightarrow> bool" where
  "ValidString s =
     (if s = [] then True
      else if runeLen s = 0 then False
      else ValidString (drop (runeLen s) s))"
  by pat_completeness auto
termination
  by (relation "measure length") auto

declare toValidUTF8.simps [simp del] ValidString.simps [simp del]

text \<open>
  A number stored into an \<^verbatim>\<open>interface{}\<close> becomes a \<^verbatim>\<open>float64\<close>; \<^verbatim>\<open>strconv.ParseFloat\<close>
  fails when the literal is half a unit in the last place or more beyond the largest
  \<^verbatim>\<open>float64\<close>. The number held is represented by its literal.
\<close>

definition fitsFloat64 :: "int \<Rightarrow> int \<Rightarrow> bool" where
  "fitsFloat64 m e =
     (if 0 \<le> e then \<bar>m\<bar> * 10 ^ nat e < 2 ^ 1024 - 2 ^ 970
      else \<bar>m\<bar> < (2 ^ 1024 - 2 ^ 970) * 10 ^ nat (- e))"

text \<open>
  \<open>numbersFit\<close>: every number literal of a value fits. \<open>asInterface\<close>: the value that a
  JSON value leaves in an \<^verbatim>\<open>interface{}\<close>: a number that does not fit leaves nil, and an
  object becomes a map, in which a later member replaces an earlier one of the same name.
\<close>

primrec numbersFit :: "json \<Rightarrow> bool" where
  "numbersFit JNull = True"
| "numbersFit (JBool b) = True"
| "numbersFit (JNum n) = fitsFloat64 n 0"
| "numbersFit (JReal m e) = fitsFloat64 m e"
| "numbersFit (JStr s) = True"
| "numbersFit (JArr xs) = list_all id (map numbersFit xs)"
| "numbersFit (JObj ms) = list_all snd (map (map_prod id numbersFit) ms)"

primrec asInterface :: "json \<Rightarrow> json" where
  "asInterface JNull = JNull"
| "asInterface (JBool b) = JBool b"
| "asInterface (JNum n) = (if fitsFloat64 n 0 then JNum n else JNull)"
| "asInterface (JReal m e) = (if fitsFloat64 m e then JReal m e else JNull)"
| "asInterface (JStr s) = JStr s"
| "asInterface (JArr xs) = JArr (map asInterface xs)"
| "asInterface (JObj ms) =
     JObj (foldl (\<lambda>m kv. AList.update (fst kv) (snd kv) m) [] (map (map_prod id asInterface) ms))"

definition isNumber :: "json \<Rightarrow> bool" where
  "isNumber v = (case v of JNum n \<Rightarrow> True | JReal m e \<Rightarrow> True | _ \<Rightarrow> False)"

text \<open>
  A value of type \<^verbatim>\<open>interface{}\<close> handed to \<^verbatim>\<open>Var\<close> is characterised by what
  \<^verbatim>\<open>encoding/json\<close> makes of it: a JSON value, or an unsupported-type error (a channel,
  a function, a complex number).
\<close>

datatype govalue = Encodes json | Unsupported

subsection \<open>Errors\<close>

text \<open>The legacy error type \<^verbatim>\<open>graphErr\<close>: \<^verbatim>\<open>Message string\<close> and the extensions.\<close>

record graphErr =
  Message' :: string
  ErrorExtensions' :: "(string \<times> json) list option"

datatype error =
    Canceled                 \<comment> \<open>\<^verbatim>\<open>context.Canceled\<close>\<close>
  | DeadlineExceeded         \<comment> \<open>\<^verbatim>\<open>context.DeadlineExceeded\<close>\<close>
  | ErrorString string       \<comment> \<open>\<^verbatim>\<open>errors.New(msg)\<close>\<close>
  | Wrap error string        \<comment> \<open>\<^verbatim>\<open>errors.Wrap(err, msg)\<close>\<close>
  | StatusNotOK int          \<comment> \<open>\<^verbatim>\<open>fmt.Errorf(messageCodeNotOK, res.StatusCode)\<close>\<close>
  | GraphQLError graphErr    \<comment> \<open>a \<^verbatim>\<open>graphErr\<close> returned as the call's error (legacy)\<close>
  | UnsupportedTypeError     \<comment> \<open>\<^verbatim>\<open>json\<close>: a value that cannot be encoded\<close>
  | SyntaxError              \<comment> \<open>\<^verbatim>\<open>json\<close>: the bytes are not a JSON text (or are empty)\<close>
  | UnmarshalTypeError       \<comment> \<open>\<^verbatim>\<open>json\<close>: a JSON value that does not fit the Go type\<close>
  | NilPointerPanic          \<comment> \<open>a run-time panic: nil pointer dereference\<close>
  | External string          \<comment> \<open>an error of an injected collaborator (transport, reader, URL parser)\<close>

subsection \<open>The cancellation context\<close>

text \<open>
  A \<^verbatim>\<open>context.Context\<close> as \<^verbatim>\<open>Run\<close> sees it at the moment of the call: \<^verbatim>\<open>Err()\<close> is
  non-nil exactly when the channel \<^verbatim>\<open>Done()\<close> is closed.
\<close>

datatype Context = Context (Err: "error option")

definition Done :: "Context \<Rightarrow> bool" where
  "Done ctx = (Err ctx \<noteq> None)"

subsection \<open>\<^verbatim>\<open>http.Header\<close>\<close>

text \<open>
  A header is a Go map from names to lists of values. It is an association list here; the
  order of the list is the order in which a \<^verbatim>\<open>range\<close> loop happens to visit the map, so a
  statement about every list covers every iteration order.
\<close>

type_synonym header = "(string \<times> string list) list"

definition validHeaderFieldByte :: "char \<Rightarrow> bool" where
  "validHeaderFieldByte c =
     (let n = (of_char c :: nat) in
        (48 \<le> n \<and> n \<le> 57) \<or> (65 \<le> n \<and> n \<le> 90) \<or> (97 \<le> n \<and> n \<le> 122) \<or>
        n \<in> {33, 35, 36, 37, 38, 39, 42, 43, 45, 46, 94, 95, 96, 124, 126})"

definition isLower :: "char \<Rightarrow> bool" where
  "isLower c = (97 \<le> (of_char c :: nat) \<and> (of_char c :: nat) \<le> 122)"

definition isUpper :: "char \<Rightarrow> bool" where
  "isUpper c = (65 \<le> (of_char c :: nat) \<and> (of_char c :: nat) \<le> 90)"

definition toUpper :: "char \<Rightarrow> char" where
  "toUpper c = (if isLower c then char_of ((of_char c :: nat) - 32) else c)"

definition toLower :: "char \<Rightarrow> char" where
  "toLower c = (if isUpper c then char_of ((of_char c :: nat) + 32) else c)"

text \<open>
  \<^verbatim>\<open>textproto.CanonicalMIMEHeaderKey\<close>: a key with a byte that is not a token character is
  left as it is; otherwise the first letter and every letter after a hyphen are upper case
  and the others lower case.
\<close>

fun canonicalise :: "bool \<Rightarrow> string \<Rightarrow> string" where
  "canonicalise upper [] = []"
| "canonicalise upper (c # cs) =
     (let c' = (if upper then toUpper c else toLower c)
      in c' # canonicalise (c' = CHR ''-'') cs)"

definition CanonicalMIMEHeaderKey :: "string \<Rightarrow> string" where
  "CanonicalMIMEHeaderKey s = (if list_all validHeaderFieldByte s then canonicalise True s else s)"

definition Values :: "header \<Rightarrow> string \<Rightarrow> string list" where
  "Values h k = (case map_of h k of None \<Rightarrow> [] | Some vs \<Rightarrow> vs)"

definition Header_Set :: "string \<Rightarrow> string \<Rightarrow> header \<Rightarrow> header" where
  "Header_Set key v h = AList.update (CanonicalMIMEHeaderKey key) [v] h"

definition Header_Add :: "string \<Rightarrow> string \<Rightarrow> header \<Rightarrow> header" where
  "Header_Add key v h =
     AList.update (CanonicalMIMEHeaderKey key) (Values h (CanonicalMIMEHeaderKey key) @ [v]) h"

definition Header_Get :: "string \<Rightarrow> header \<Rightarrow> string" where
  "Header_Get key h = (case Values h (CanonicalMIMEHeaderKey key) of [] \<Rightarrow> [] | v # _ \<Rightarrow> v)"

subsection \<open>The request: \<^verbatim>\<open>GraphRequest\<close> (legacy name \<^verbatim>\<open>GraphqlRequest\<close>)\<close>

text \<open>
  An \<^verbatim>\<open>io.Reader\<close> is what reading it to the end yields: its bytes, or the error of the
  read that failed.
\<close>

record File =
  Field :: string
  Name :: string
  R :: "error + string"

text \<open>
  \<open>vars\<close> is \<open>None\<close> for the nil map. The two declarations of the request differ in the
  name of the type only, so one record stands for both.
\<close>

record GraphRequest =
  query :: string
  vars :: "(string \<times> govalue) list option"
  files :: "File list"
  Header :: header

definition NewGraphqlRequest :: "string \<Rightarrow> GraphRequest" where
  "NewGraphqlRequest q = \<lparr>query = q, vars = None, files = [], Header = []\<rparr>"

definition Var :: "string \<Rightarrow> govalue \<Rightarrow> GraphRequest \<Rightarrow> GraphRequest" where
  "Var key val req =
     (let req1 = (if vars req = None then req\<lparr>vars := Some []\<rparr> else req)
      in req1\<lparr>vars := map_option (AList.update key val) (vars req1)\<rparr>)"

definition Vars :: "GraphRequest \<Rightarrow> (string \<times> govalue) list option" where
  "Vars req = vars req"

definition Files :: "GraphRequest \<Rightarrow> File list" where
  "Files req = files req"

definition Query :: "GraphRequest \<Rightarrow> string" where
  "Query req = query req"

definition AttachFile :: "string \<Rightarrow> string \<Rightarrow> (error + string) \<Rightarrow> GraphRequest \<Rightarrow> GraphRequest" where
  \<comment> \<open>the method \<^verbatim>\<open>File\<close>\<close>
  "AttachFile fieldname filename r req =
     req\<lparr>files := files req @ [\<lparr>Field = fieldname, Name = filename, R = r\<rparr>]\<rparr>"

text \<open>\<^verbatim>\<open>len(req.vars)\<close>: the nil map has length 0.\<close>

definition len_vars :: "GraphRequest \<Rightarrow> nat" where
  "len_vars req = (case vars req of None \<Rightarrow> 0 | Some m \<Rightarrow> length m)"

subsection \<open>HTTP messages, the transport and the client\<close>

datatype field_value = Raw string | Encoded json

datatype part =
    FormField string field_value     \<comment> \<open>\<^verbatim>\<open>WriteField\<close> / \<^verbatim>\<open>CreateFormField\<close>: name, value\<close>
  | FormFile string string string    \<comment> \<open>\<^verbatim>\<open>CreateFormFile\<close>: field name, file name, content\<close>

datatype body = JSONBody json | FormBody "part list"

record http_request =
  Method :: string
  URL :: string
  Close :: bool
  ReqHeader :: header
  ReqBody :: body
  ReqCtx :: Context

text \<open>
  The buffered bytes of a response body, as far as the client can see them through
  \<^verbatim>\<open>encoding/json\<close>: \<open>decoded\<close> is the first JSON value a \<^verbatim>\<open>json.Decoder\<close> reads from them
  (\<open>None\<close> when there is none), \<open>whole\<close> is the value \<^verbatim>\<open>json.Unmarshal\<close> finds when all the
  bytes are one JSON text (\<open>None\<close> otherwise, also when other bytes follow the value), and
  \<open>unread\<close> is what \<^verbatim>\<open>json.Unmarshal\<close> finds in the bytes that the decoder has left in the
  buffer after its call (\<open>None\<close> when it has read them all, as it does with a short body).
\<close>

record payload =
  decoded :: "json option"
  whole :: "json option"
  unread :: "json option"

definition JSONDoc :: "json \<Rightarrow> payload" where
  \<comment> \<open>the bytes are one JSON text, short enough for the decoder to read them all\<close>
  "JSONDoc v = \<lparr>decoded = Some v, whole = Some v, unread = None\<rparr>"

definition Malformed :: payload where
  \<comment> \<open>bytes that hold no JSON value\<close>
  "Malformed = \<lparr>decoded = None, whole = None, unread = None\<rparr>"

record http_response =
  StatusCode :: int
  Body :: "error + payload"

text \<open>
  The fields of \<^verbatim>\<open>Client\<close> that the pipeline reads. \<open>httpClient\<close> is the \<^verbatim>\<open>HTTPDoer\<close>:
  its method \<^verbatim>\<open>Do\<close>.
\<close>

record Client =
  url :: string
  httpClient :: "http_request \<Rightarrow> error + http_response"
  useMultipartForm :: bool
  closeReq :: bool

definition WithHTTPClient :: "(http_request \<Rightarrow> error + http_response) \<Rightarrow> Client \<Rightarrow> Client" where
  "WithHTTPClient doer client = client\<lparr>httpClient := doer\<rparr>"

definition UseMultipartForm :: "Client \<Rightarrow> Client" where
  "UseMultipartForm client = client\<lparr>useMultipartForm := True\<rparr>"

definition ImmediatelyCloseReqBody :: "Client \<Rightarrow> Client" where
  "ImmediatelyCloseReqBody client = client\<lparr>closeReq := True\<rparr>"

text \<open>
  What the pipeline takes from the standard library without the package fixing it: whether
  \<^verbatim>\<open>http.NewRequest\<close> accepts the URL, and the boundary the multipart writer draws.
\<close>

record stdlib =
  url_Parse :: "string \<Rightarrow> error option"
  boundary :: string

definition http_NewRequest :: "stdlib \<Rightarrow> string \<Rightarrow> string \<Rightarrow> body \<Rightarrow> error + http_request" where
  "http_NewRequest lib method u b =
     (case url_Parse lib u of
        Some e \<Rightarrow> Inl e
      | None \<Rightarrow> Inr \<lparr>Method = method, URL = u, Close = False, ReqHeader = [],
                     ReqBody = b, ReqCtx = Context None\<rparr>)"

definition FormDataContentType :: "stdlib \<Rightarrow> string" where
  "FormDataContentType lib = ''multipart/form-data; boundary='' @ boundary lib"

fun addValues :: "string \<Rightarrow> string list \<Rightarrow> header \<Rightarrow> header" where
  "addValues key [] h = h"
| "addValues key (v # vs) h = addValues key vs (Header_Add key v h)"

fun addEntries :: "header \<Rightarrow> header \<Rightarrow> header" where
  "addEntries [] h = h"
| "addEntries ((key, vs) # es) h = addEntries es (addValues key vs h)"

definition addHTTPHeaders :: "http_request \<Rightarrow> GraphRequest \<Rightarrow> string \<Rightarrow> http_request" where
  "addHTTPHeaders httpRequest req contentType =
     (let h1 = Header_Set ''Content-Type'' contentType (ReqHeader httpRequest);
          h2 = Header_Set ''Accept'' ''application/json; charset=utf-8'' h1
      in httpRequest\<lparr>ReqHeader := addEntries (Header req) h2\<rparr>)"

subsection \<open>Encoding: JSON mode and multipart mode\<close>

fun collect :: "('e + 'a) list \<Rightarrow> 'e + 'a list" where
  "collect [] = Inr []"
| "collect (x # xs) =
     (case x of
        Inl e \<Rightarrow> Inl e
      | Inr a \<Rightarrow> (case collect xs of Inl e \<Rightarrow> Inl e | Inr as \<Rightarrow> Inr (a # as)))"

definition marshal_entry :: "string \<times> govalue \<Rightarrow> error + (string \<times> json)" where
  "marshal_entry kv =
     (case snd kv of Unsupported \<Rightarrow> Inl UnsupportedTypeError | Encodes j \<Rightarrow> Inr (fst kv, j))"

text \<open>
  \<^verbatim>\<open>encoding/json\<close> on a \<^verbatim>\<open>map[string]interface{}\<close>: the nil map is \<^verbatim>\<open>null\<close>, any other map
  an object with its entries in the order of the keys; each key is written as a string, so
  bytes that are not UTF-8 become U+FFFD.
\<close>

definition marshal_vars :: "(string \<times> govalue) list option \<Rightarrow> error + json" where
  "marshal_vars v =
     (case v of
        None \<Rightarrow> Inr JNull
      | Some m \<Rightarrow>
          (case collect (map marshal_entry (sort_key fst m)) of
             Inl e \<Rightarrow> Inl e
           | Inr ms \<Rightarrow> Inr (JObj (map (\<lambda>kj. (toValidUTF8 (fst kj), snd kj)) ms))))"

text \<open>
  The struct \<^verbatim>\<open>graphqlModel\<close> with its tags \<^verbatim>\<open>json:"query"\<close> and \<^verbatim>\<open>json:"variables"\<close>,
  as the encoder writes it.
\<close>

definition marshal_graphqlModel :: "string \<Rightarrow> (string \<times> govalue) list option \<Rightarrow> error + json" where
  "marshal_graphqlModel q v =
     (case marshal_vars v of
        Inl e \<Rightarrow> Inl e
      | Inr j \<Rightarrow> Inr (JObj [(''query'', JStr (toValidUTF8 q)), (''variables'', j)]))"

fun writeFiles :: "File list \<Rightarrow> part list \<Rightarrow> error + part list" where
  "writeFiles [] ps = Inr ps"
| "writeFiles (f # fs) ps =
     (case R f of
        Inl e \<Rightarrow> Inl (Wrap e ''preparing file'')
      | Inr bytes \<Rightarrow> writeFiles fs (ps @ [FormFile (Field f) (Name f) bytes]))"

text \<open>
  The first part of \<^verbatim>\<open>runWithPostFields\<close>, up to \<^verbatim>\<open>writer.Close()\<close>. Writing into a
  \<^verbatim>\<open>bytes.Buffer\<close> does not fail, so of the five error returns of the source two remain:
  the encoding of the variables and the read of a file.
\<close>

definition writeForm :: "GraphRequest \<Rightarrow> error + part list" where
  "writeForm req =
     (let ps = [FormField ''query'' (Raw (query req))];
          withVars =
            (if len_vars req > 0
             then (case marshal_vars (vars req) of
                     Inl e \<Rightarrow> Inl (Wrap e ''encode variables'')
                   | Inr j \<Rightarrow> Inr (ps @ [FormField ''variables'' (Encoded j)]))
             else Inr ps)
      in case withVars of Inl e \<Rightarrow> Inl e | Inr ps1 \<Rightarrow> writeFiles (files req) ps1)"

text \<open>
  From \<^verbatim>\<open>http.NewRequest\<close> to the end of \<^verbatim>\<open>io.Copy(&buf, res.Body)\<close>: these lines are the
  same in all four \<^verbatim>\<open>runWith...\<close> functions. The result is the error returned, or the status
  code with the buffered body, and the list of the requests handed to the transport.
\<close>

definition dispatch ::
  "stdlib \<Rightarrow> Client \<Rightarrow> Context \<Rightarrow> GraphRequest \<Rightarrow> string \<Rightarrow> body \<Rightarrow>
     (error + int \<times> payload) \<times> http_request list" where
  "dispatch lib c ctx req contentType b =
     (case http_NewRequest lib ''POST'' (url c) b of
        Inl e \<Rightarrow> (Inl e, [])
      | Inr r0 \<Rightarrow>
          (let r = (addHTTPHeaders (r0\<lparr>Close := closeReq c\<rparr>) req contentType)\<lparr>ReqCtx := ctx\<rparr>
           in case httpClient c r of
                Inl e \<Rightarrow> (Inl e, [r])
              | Inr res \<Rightarrow>
                  (case Body res of
                     Inl e \<Rightarrow> (Inl (Wrap e ''reading body''), [r])
                   | Inr buf \<Rightarrow> (Inr (StatusCode res, buf), [r]))))"

subsection \<open>The error model and its decoding\<close>

record Location =
  Column :: int
  Line :: int

text \<open>
  \<^verbatim>\<open>GraphErr\<close> is declared twice, with \<^verbatim>\<open>Message interface{}\<close> and with \<^verbatim>\<open>Message string\<close>;
  the other fields agree. The record takes the type of the message as its parameter:
  \<open>json GraphErr\<close> is the first declaration (\<open>JNull\<close> for the nil interface),
  \<open>string GraphErr\<close> the second.
\<close>

record 'm GraphErr =
  Message :: 'm
  ErrorExtensions :: "(string \<times> json) list option"
  Locations :: "Location list"
  Path :: "string list"

definition Extensions :: "'m GraphErr \<Rightarrow> (string \<times> json) list option" where
  "Extensions e = ErrorExtensions e"

definition Extensions_legacy :: "graphErr \<Rightarrow> (string \<times> json) list option" where
  "Extensions_legacy e = ErrorExtensions' e"

definition Error_string :: "string GraphErr \<Rightarrow> string" where
  "Error_string e = ''graphql: '' @ Message e"

definition Error_legacy :: "graphErr \<Rightarrow> string" where
  "Error_legacy e = ''graphql: '' @ Message' e"

text \<open>
  How \<^verbatim>\<open>encoding/json\<close> stores a JSON value into a Go value: the result is the error it
  saves, if any, and the Go value afterwards. A value of the wrong kind, or a number that
  does not fit, is an \<^verbatim>\<open>UnmarshalTypeError\<close>: the decoder saves the first one, goes on, and
  returns it when it has finished. A \<^verbatim>\<open>null\<close> leaves a string, an integer or a struct as it
  is and makes an interface, a map or a slice nil.
\<close>

type_synonym 'a store = "json \<Rightarrow> 'a \<Rightarrow> error option \<times> 'a"

definition saveError :: "error option \<Rightarrow> error option \<Rightarrow> error option" where
  "saveError saved e = (case saved of None \<Rightarrow> e | Some s \<Rightarrow> Some s)"

text \<open>
  A member of an object goes to the field whose name (or tag) is equal to its key under
  simple case folding. The names here are ASCII, so it is enough to fold the ASCII letters and
  the two other characters that fold to one: U+017F to \<open>S\<close> and U+212A to \<open>K\<close>. Every member
  is stored in turn, duplicates too.
\<close>

fun foldName :: "string \<Rightarrow> string" where
  "foldName (a # b # c # s) =
     (if a = CHR 0xE2 \<and> b = CHR 0x84 \<and> c = CHR 0xAA then CHR ''K'' # foldName s
      else if a = CHR 0xC5 \<and> b = CHR 0xBF then CHR ''S'' # foldName (c # s)
      else toUpper a # foldName (b # c # s))"
| "foldName [a, b] =
     (if a = CHR 0xC5 \<and> b = CHR 0xBF then [CHR ''S''] else [toUpper a, toUpper b])"
| "foldName [a] = [toUpper a]"
| "foldName [] = []"

definition equalFold :: "string \<Rightarrow> string \<Rightarrow> bool" where
  "equalFold s t = (foldName s = foldName t)"


text \<open>
  \<^verbatim>\<open>interface{}\<close>: a number that does not fit at the top leaves the old value; elsewhere in
  the value it leaves nil in its place.
\<close>

definition store_interface :: "json store" where
  "store_interface v old =
     (if numbersFit v then (None, asInterface v)
      else (Some UnmarshalTypeError, if isNumber v then old else asInterface v))"

definition store_string :: "string store" where
  "store_string v old =
     (case v of
        JStr s \<Rightarrow> (None, s)
      | JNull \<Rightarrow> (None, old)
      | _ \<Rightarrow> (Some UnmarshalTypeError, old))"

definition store_int :: "int store" where
  "store_int v old =
     (case v of
        JNum n \<Rightarrow> if - (2 ^ 63) \<le> n \<and> n < 2 ^ 63 then (None, n) else (Some UnmarshalTypeError, old)
      | JNull \<Rightarrow> (None, old)
      | _ \<Rightarrow> (Some UnmarshalTypeError, old))"

text \<open>
  A slice: the elements of the array are stored one by one into the elements the slice has,
  and into zero values beyond them, and the slice is cut to the length of the array. (What a
  slice that has been cut keeps beyond its length is not modelled.)
\<close>

fun store_elems :: "'a store \<Rightarrow> 'a \<Rightarrow> json list \<Rightarrow> 'a list \<Rightarrow> error option \<times> 'a list" where
  "store_elems st zero [] old = (None, [])"
| "store_elems st zero (x # xs) old =
     (let r = st x (case old of [] \<Rightarrow> zero | a # as \<Rightarrow> a);
          rs = store_elems st zero xs (tl old)
      in (saveError (fst r) (fst rs), snd r # snd rs))"

definition store_slice :: "'a store \<Rightarrow> 'a \<Rightarrow> 'a list store" where
  "store_slice st zero v old =
     (case v of
        JArr xs \<Rightarrow> store_elems st zero xs old
      | JNull \<Rightarrow> (None, [])
      | _ \<Rightarrow> (Some UnmarshalTypeError, old))"

text \<open>
  A \<^verbatim>\<open>map[string]interface{}\<close>: the members of the object are put into the map the field
  has, or into a new one.
\<close>

definition store_entry ::
  "error option \<times> (string \<times> json) list \<Rightarrow> string \<times> json \<Rightarrow> error option \<times> (string \<times> json) list" where
  "store_entry s kv =
     (saveError (fst s) (fst (store_interface (snd kv) JNull)),
      AList.update (fst kv) (snd (store_interface (snd kv) JNull)) (snd s))"

definition store_map :: "(string \<times> json) list option store" where
  "store_map v old =
     (case v of
        JObj ms \<Rightarrow>
          map_prod id Some (foldl store_entry (None, case old of None \<Rightarrow> [] | Some m \<Rightarrow> m) ms)
      | JNull \<Rightarrow> (None, None)
      | _ \<Rightarrow> (Some UnmarshalTypeError, old))"

text \<open>A struct: the members of the object are stored in turn by \<open>step\<close>.\<close>

definition store_struct ::
  "(error option \<times> 'a \<Rightarrow> string \<times> json \<Rightarrow> error option \<times> 'a) \<Rightarrow> 'a store" where
  "store_struct step v old =
     (case v of
        JObj ms \<Rightarrow> foldl step (None, old) ms
      | JNull \<Rightarrow> (None, old)
      | _ \<Rightarrow> (Some UnmarshalTypeError, old))"

definition member_Location ::
  "error option \<times> Location \<Rightarrow> string \<times> json \<Rightarrow> error option \<times> Location" where
  "member_Location s kv =
     (if equalFold (fst kv) ''column''
      then (saveError (fst s) (fst (store_int (snd kv) (Column (snd s)))),
            (snd s)\<lparr>Column := snd (store_int (snd kv) (Column (snd s)))\<rparr>)
      else if equalFold (fst kv) ''line''
      then (saveError (fst s) (fst (store_int (snd kv) (Line (snd s)))),
            (snd s)\<lparr>Line := snd (store_int (snd kv) (Line (snd s)))\<rparr>)
      else s)"

definition store_Location :: "Location store" where
  "store_Location = store_struct member_Location"

text \<open>
  One member stored into a \<^verbatim>\<open>GraphErr\<close>; \<open>sm\<close> stores into the type of \<^verbatim>\<open>Message\<close>.
\<close>

definition member_GraphErr ::
  "'m store \<Rightarrow> error option \<times> 'm GraphErr \<Rightarrow> string \<times> json \<Rightarrow> error option \<times> 'm GraphErr" where
  "member_GraphErr sm s kv =
     (if equalFold (fst kv) ''message''
      then (saveError (fst s) (fst (sm (snd kv) (Message (snd s)))),
            (snd s)\<lparr>Message := snd (sm (snd kv) (Message (snd s)))\<rparr>)
      else if equalFold (fst kv) ''extensions''
      then (saveError (fst s) (fst (store_map (snd kv) (ErrorExtensions (snd s)))),
            (snd s)\<lparr>ErrorExtensions := snd (store_map (snd kv) (ErrorExtensions (snd s)))\<rparr>)
      else if equalFold (fst kv) ''locations''
      then (saveError (fst s)
              (fst (store_slice store_Location \<lparr>Column = 0, Line = 0\<rparr> (snd kv) (Locations (snd s)))),
            (snd s)\<lparr>Locations :=
              snd (store_slice store_Location \<lparr>Column = 0, Line = 0\<rparr> (snd kv) (Locations (snd s)))\<rparr>)
      else if equalFold (fst kv) ''path''
      then (saveError (fst s) (fst (store_slice store_string [] (snd kv) (Path (snd s)))),
            (snd s)\<lparr>Path := snd (store_slice store_string [] (snd kv) (Path (snd s)))\<rparr>)
      else s)"

definition decode_GraphErr :: "json GraphErr store" where
  \<comment> \<open>\<^verbatim>\<open>Message interface{}\<close>\<close>
  "decode_GraphErr = store_struct (member_GraphErr store_interface)"


text \<open>
  The legacy \<^verbatim>\<open>graphErr\<close>: \<^verbatim>\<open>Message\<close> has no tag and is found under its own name.
\<close>

definition member_graphErr ::
  "error option \<times> graphErr \<Rightarrow> string \<times> json \<Rightarrow> error option \<times> graphErr" where
  "member_graphErr s kv =
     (if equalFold (fst kv) ''Message''
      then (saveError (fst s) (fst (store_string (snd kv) (Message' (snd s)))),
            (snd s)\<lparr>Message' := snd (store_string (snd kv) (Message' (snd s)))\<rparr>)
      else if equalFold (fst kv) ''extensions''
      then (saveError (fst s) (fst (store_map (snd kv) (ErrorExtensions' (snd s)))),
            (snd s)\<lparr>ErrorExtensions' := snd (store_map (snd kv) (ErrorExtensions' (snd s)))\<rparr>)
      else s)"

definition decode_graphErr :: "graphErr store" where
  "decode_graphErr = store_struct member_graphErr"

definition zeroGraphErr :: "'m \<Rightarrow> 'm GraphErr" where
  "zeroGraphErr z = \<lparr>Message = z, ErrorExtensions = None, Locations = [], Path = []\<rparr>"

definition zero_graphErr :: graphErr where
  "zero_graphErr = \<lparr>Message' = [], ErrorExtensions' = None\<rparr>"

subsection \<open>The response envelope and the caller's targets\<close>

text \<open>
  What the field \<^verbatim>\<open>Data interface{}\<close> of the envelope holds: nothing, the pointer the
  caller passed as target, or a value the decoder made itself.
\<close>

datatype iface = Nil | Target | Generic json

text \<open>
  \<^verbatim>\<open>GraphResponse\<close> with \<^verbatim>\<open>Errors []GraphErr\<close>, and the legacy \<^verbatim>\<open>graphResponse\<close> with
  \<^verbatim>\<open>Errors []graphErr\<close>: the element type is the parameter.
\<close>

record 'x GraphResponse =
  Data :: iface
  Errors :: "'x list"

text \<open>
  A target is a non-nil pointer the caller passes as \<^verbatim>\<open>interface{}\<close>, to a value that is
  not a pointer itself: the content it points to, and what \<^verbatim>\<open>encoding/json\<close> does when it
  stores a JSON value other than \<^verbatim>\<open>null\<close> there (the error it reports, if any, and the
  content afterwards, which a failed store may have changed in part).
\<close>

record 'd target =
  content :: 'd
  unmarshal :: "json \<Rightarrow> 'd \<Rightarrow> error option \<times> 'd"

definition held :: "iface \<Rightarrow> json" where
  "held i = (case i of Generic x \<Rightarrow> x | _ \<Rightarrow> JNull)"

definition generic :: "json \<Rightarrow> iface" where
  "generic y = (case y of JNull \<Rightarrow> Nil | _ \<Rightarrow> Generic y)"

text \<open>
  One member of the object, stored into the envelope. The fields \<^verbatim>\<open>Data\<close> and
  \<^verbatim>\<open>Errors\<close> have no tag. The state is the envelope, the content of the target and the
  first error saved so far. A \<^verbatim>\<open>null\<close> under \<^verbatim>\<open>data\<close> makes the interface nil and does not
  touch the target; any other value goes into the target while the interface holds it, and
  into the interface itself once that is nil. \<open>st\<close> and \<open>zero\<close> are the store and the zero
  value of the elements of \<^verbatim>\<open>Errors\<close>.
\<close>

definition storeMember ::
  "'x store \<Rightarrow> 'x \<Rightarrow> 'd store \<Rightarrow>
     'x GraphResponse \<times> 'd \<times> error option \<Rightarrow> string \<times> json \<Rightarrow>
     'x GraphResponse \<times> 'd \<times> error option" where
  "storeMember st zero um s kv =
     (case s of (g, d, saved) \<Rightarrow>
        if equalFold (fst kv) ''Data'' then
          (if snd kv = JNull then (g\<lparr>Data := Nil\<rparr>, d, saved)
           else (case Data g of
                   Target \<Rightarrow> (g, snd (um (snd kv) d), saveError saved (fst (um (snd kv) d)))
                 | _ \<Rightarrow>
                     (g\<lparr>Data := generic (snd (store_interface (snd kv) (held (Data g))))\<rparr>, d,
                      saveError saved (fst (store_interface (snd kv) (held (Data g)))))))
        else if equalFold (fst kv) ''Errors'' then
          (g\<lparr>Errors := snd (store_slice st zero (snd kv) (Errors g))\<rparr>, d,
           saveError saved (fst (store_slice st zero (snd kv) (Errors g))))
        else (g, d, saved))"

text \<open>
  \<^verbatim>\<open>json.NewDecoder(&buf).Decode(&graphResponse)\<close>, where \<^verbatim>\<open>graphResponse\<close> points to an
  envelope whose \<^verbatim>\<open>Data\<close> is the target. The result is the pointer afterwards (\<open>None\<close> when
  a \<^verbatim>\<open>null\<close> has made it nil), the content of the target, and the error returned.
\<close>

definition Decode ::
  "'x store \<Rightarrow> 'x \<Rightarrow> 'd target \<Rightarrow> payload \<Rightarrow> 'x GraphResponse option \<times> 'd \<times> error option" where
  "Decode st zero tg buf =
     (let g0 = \<lparr>Data = Target, Errors = []\<rparr> in
      case decoded buf of
        None \<Rightarrow> (Some g0, content tg, Some SyntaxError)
      | Some JNull \<Rightarrow> (None, content tg, None)
      | Some (JObj ms) \<Rightarrow>
          (case foldl (storeMember st zero (unmarshal tg)) (g0, content tg, None) ms of
             (g, d, e) \<Rightarrow> (Some g, d, e))
      | Some v \<Rightarrow> (Some g0, content tg, Some UnmarshalTypeError))"

text \<open>
  \<^verbatim>\<open>_ = json.Unmarshal(bytes, &errorResp)\<close>: the content of the error target afterwards,
  given what \<^verbatim>\<open>json.Unmarshal\<close> finds in the bytes; the error is dropped.
\<close>

definition Unmarshal_discard :: "'e target \<Rightarrow> json option \<Rightarrow> 'e" where
  "Unmarshal_discard tg found =
     (case found of
        None \<Rightarrow> content tg
      | Some JNull \<Rightarrow> content tg
      | Some v \<Rightarrow> snd (unmarshal tg v (content tg)))"

subsection \<open>The client: the unified calling convention\<close>

text \<open>
  The result of a call: what \<^verbatim>\<open>Run\<close> returns (\<open>Inl\<close> the error; \<open>Inr\<close> the envelope
  pointer with a nil error), the content of the target afterwards, and the requests handed to
  the transport, in order. The debug lines written to \<^verbatim>\<open>Log\<close> are left out: the sink
  returns nothing.
\<close>

record 'd outcome =
  returned :: "error + json GraphErr GraphResponse option"
  target_after :: 'd
  sent :: "http_request list"

definition runWithJSON ::
  "stdlib \<Rightarrow> Client \<Rightarrow> Context \<Rightarrow> GraphRequest \<Rightarrow> 'd target \<Rightarrow> 'd outcome" where
  "runWithJSON lib c ctx req responseData =
     (case marshal_graphqlModel (query req) (vars req) of
        Inl e \<Rightarrow>
          \<lparr>returned = Inl (Wrap e ''encode body''), target_after = content responseData, sent = []\<rparr>
      | Inr b \<Rightarrow>
          (case dispatch lib c ctx req ''application/json; charset=utf-8'' (JSONBody b) of
             (Inl e, rs) \<Rightarrow> \<lparr>returned = Inl e, target_after = content responseData, sent = rs\<rparr>
           | (Inr (code, buf), rs) \<Rightarrow>
               if code \<noteq> 200
               then \<lparr>returned = Inl (StatusNotOK code), target_after = content responseData,
                      sent = rs\<rparr>
               else (case Decode decode_GraphErr (zeroGraphErr JNull) responseData buf of
                       (g, d, Some e) \<Rightarrow>
                         \<lparr>returned = Inl (Wrap e ''decoding response''), target_after = d, sent = rs\<rparr>
                     | (g, d, None) \<Rightarrow> \<lparr>returned = Inr g, target_after = d, sent = rs\<rparr>)))"

definition runWithPostFields ::
  "stdlib \<Rightarrow> Client \<Rightarrow> Context \<Rightarrow> GraphRequest \<Rightarrow> 'd target \<Rightarrow> 'd outcome" where
  "runWithPostFields lib c ctx req responseData =
     (case writeForm req of
        Inl e \<Rightarrow> \<lparr>returned = Inl e, target_after = content responseData, sent = []\<rparr>
      | Inr ps \<Rightarrow>
          (case dispatch lib c ctx req (FormDataContentType lib) (FormBody ps) of
             (Inl e, rs) \<Rightarrow> \<lparr>returned = Inl e, target_after = content responseData, sent = rs\<rparr>
           | (Inr (code, buf), rs) \<Rightarrow>
               (case Decode decode_GraphErr (zeroGraphErr JNull) responseData buf of
                  (g, d, Some e) \<Rightarrow>
                    if code \<noteq> 200
                    then \<lparr>returned = Inl (StatusNotOK code), target_after = d, sent = rs\<rparr>
                    else \<lparr>returned = Inl (Wrap e ''decoding response''), target_after = d, sent = rs\<rparr>
                | (g, d, None) \<Rightarrow> \<lparr>returned = Inr g, target_after = d, sent = rs\<rparr>)))"

definition Run ::
  "stdlib \<Rightarrow> Client \<Rightarrow> Context \<Rightarrow> GraphRequest \<Rightarrow> 'd target \<Rightarrow> 'd outcome" where
  "Run lib c ctx req graphqlResponse =
     (case Err ctx of
        Some e \<Rightarrow> \<lparr>returned = Inl e, target_after = content graphqlResponse, sent = []\<rparr>
      | None \<Rightarrow>
          if length (files req) > 0 \<and> \<not> useMultipartForm c
          then \<lparr>returned = Inl (ErrorString ''cannot send files with PostFields option''),
                 target_after = content graphqlResponse, sent = []\<rparr>
          else if useMultipartForm c then runWithPostFields lib c ctx req graphqlResponse
          else runWithJSON lib c ctx req graphqlResponse)"

subsection \<open>The client: the legacy two-target calling convention\<close>

text \<open>
  The legacy \<^verbatim>\<open>Run\<close> returns an error only (\<open>None\<close> for nil) and writes into two targets.
  Its envelope is a local variable; when a \<^verbatim>\<open>null\<close> body has made that pointer nil,
  \<^verbatim>\<open>len(gr.Errors)\<close> panics. On a status other than 200 the legacy \<^verbatim>\<open>runWithJSON\<close> hands
  all the bytes of the body to \<^verbatim>\<open>json.Unmarshal\<close>; the legacy \<^verbatim>\<open>runWithPostFields\<close> does
  so after the decoder has read from the buffer, so \<^verbatim>\<open>buf.Bytes()\<close> is what the decoder has
  left.
\<close>

record ('d, 'e) outcome_legacy =
  returned_legacy :: "error option"
  resp_after :: 'd
  errorResp_after :: 'e
  sent_legacy :: "http_request list"

definition firstError :: "graphErr GraphResponse option \<Rightarrow> error option" where
  "firstError gr =
     (case gr of
        None \<Rightarrow> Some NilPointerPanic
      | Some g \<Rightarrow> (case Errors g of [] \<Rightarrow> None | e # es \<Rightarrow> Some (GraphQLError e)))"

definition runWithJSON_legacy ::
  "stdlib \<Rightarrow> Client \<Rightarrow> Context \<Rightarrow> GraphRequest \<Rightarrow> 'd target \<Rightarrow> 'e target \<Rightarrow>
     ('d, 'e) outcome_legacy" where
  "runWithJSON_legacy lib c ctx req resp errorResp =
     (case marshal_graphqlModel (query req) (vars req) of
        Inl e \<Rightarrow>
          \<lparr>returned_legacy = Some (Wrap e ''encode body''), resp_after = content resp,
           errorResp_after = content errorResp, sent_legacy = []\<rparr>
      | Inr b \<Rightarrow>
          (case dispatch lib c ctx req ''application/json; charset=utf-8'' (JSONBody b) of
             (Inl e, rs) \<Rightarrow>
               \<lparr>returned_legacy = Some e, resp_after = content resp,
                errorResp_after = content errorResp, sent_legacy = rs\<rparr>
           | (Inr (code, buf), rs) \<Rightarrow>
               if code \<noteq> 200
               then \<lparr>returned_legacy = Some (StatusNotOK code), resp_after = content resp,
                      errorResp_after = Unmarshal_discard errorResp (whole buf), sent_legacy = rs\<rparr>
               else (case Decode decode_graphErr zero_graphErr resp buf of
                       (gr, d, Some e) \<Rightarrow>
                         \<lparr>returned_legacy = Some (Wrap e ''decoding response''), resp_after = d,
                          errorResp_after = content errorResp, sent_legacy = rs\<rparr>
                     | (gr, d, None) \<Rightarrow>
                         \<lparr>returned_legacy = firstError gr, resp_after = d,
                          errorResp_after = content errorResp, sent_legacy = rs\<rparr>)))"

definition runWithPostFields_legacy ::
  "stdlib \<Rightarrow> Client \<Rightarrow> Context \<Rightarrow> GraphRequest \<Rightarrow> 'd target \<Rightarrow> 'e target \<Rightarrow>
     ('d, 'e) outcome_legacy" where
  "runWithPostFields_legacy lib c ctx req resp errorResp =
     (case writeForm req of
        Inl e \<Rightarrow>
          \<lparr>returned_legacy = Some e, resp_after = content resp,
           errorResp_after = content errorResp, sent_legacy = []\<rparr>
      | Inr ps \<Rightarrow>
          (case dispatch lib c ctx req (FormDataContentType lib) (FormBody ps) of
             (Inl e, rs) \<Rightarrow>
               \<lparr>returned_legacy = Some e, resp_after = content resp,
                errorResp_after = content errorResp, sent_legacy = rs\<rparr>
           | (Inr (code, buf), rs) \<Rightarrow>
               (case Decode decode_graphErr zero_graphErr resp buf of
                  (gr, d, Some e) \<Rightarrow>
                    if code \<noteq> 200
                    then \<lparr>returned_legacy = Some (StatusNotOK code), resp_after = d,
                           errorResp_after = Unmarshal_discard errorResp (unread buf),
                           sent_legacy = rs\<rparr>
                    else \<lparr>returned_legacy = Some (Wrap e ''decoding response''), resp_after = d,
                           errorResp_after = content errorResp, sent_legacy = rs\<rparr>
                | (gr, d, None) \<Rightarrow>
                    \<lparr>returned_legacy = firstError gr, resp_after = d,
                     errorResp_after = content errorResp, sent_legacy = rs\<rparr>)))"

definition Run_legacy ::
  "stdlib \<Rightarrow> Client \<Rightarrow> Context \<Rightarrow> GraphRequest \<Rightarrow> 'd target \<Rightarrow> 'e target \<Rightarrow>
     ('d, 'e) outcome_legacy" where
  "Run_legacy lib c ctx req resp errorResp =
     (case Err ctx of
        Some e \<Rightarrow>
          \<lparr>returned_legacy = Some e, resp_after = content resp,
           errorResp_after = content errorResp, sent_legacy = []\<rparr>
      | None \<Rightarrow>
          if length (files req) > 0 \<and> \<not> useMultipartForm c
          then \<lparr>returned_legacy = Some (ErrorString ''cannot send files with PostFields option''),
                 resp_after = content resp, errorResp_after = content errorResp,
                 sent_legacy = []\<rparr>
          else if useMultipartForm c then runWithPostFields_legacy lib c ctx req resp errorResp
          else runWithJSON_legacy lib c ctx req resp errorResp)"

subsection \<open>Construction, observers and test doubles\<close>

text \<open>
  \<^verbatim>\<open>NewClient\<close>: the options are applied in order to a client with the given URL. The
  first argument is \<^verbatim>\<open>http.DefaultClient\<close>, which the source installs when no option has
  set a transport.
\<close>

definition NewClient ::
  "(http_request \<Rightarrow> error + http_response) \<Rightarrow> string \<Rightarrow> (Client \<Rightarrow> Client) list \<Rightarrow> Client" where
  "NewClient defaultClient u opts =
     foldl (\<lambda>c optionFunc. optionFunc c)
       \<lparr>url = u, httpClient = defaultClient, useMultipartForm = False, closeReq = False\<rparr> opts"

text \<open>
  The answer the transport gave to the requests of a call: the status code and the buffered
  body, when exactly one request was sent, the transport returned a response for it, and the
  body could be read.
\<close>

definition answer :: "Client \<Rightarrow> http_request list \<Rightarrow> (int \<times> payload) option" where
  "answer c rs =
     (case rs of
        [r] \<Rightarrow>
          (case httpClient c r of
             Inl e \<Rightarrow> None
           | Inr res \<Rightarrow> (case Body res of Inl e \<Rightarrow> None | Inr buf \<Rightarrow> Some (StatusCode res, buf)))
      | _ \<Rightarrow> None)"

text \<open>
  The headers the client owns, for a canonical name: \<open>ct\<close> is the content type of the
  encoder.
\<close>

definition owned :: "string \<Rightarrow> string \<Rightarrow> string list" where
  "owned ct n =
     (if n = ''Accept'' then [''application/json; charset=utf-8'']
      else if n = ''Content-Type'' then [ct] else [])"

text \<open>The values a request header gives for a canonical name, in the order of the entries.\<close>

definition supplied :: "header \<Rightarrow> string \<Rightarrow> string list" where
  "supplied h n = concat (map snd (filter (\<lambda>e. CanonicalMIMEHeaderKey (fst e) = n) h))"

text \<open>The content type of the encoder that the mode of the client selects.\<close>

definition encoderContentType :: "stdlib \<Rightarrow> Client \<Rightarrow> string" where
  "encoderContentType lib c =
     (if useMultipartForm c then FormDataContentType lib else ''application/json; charset=utf-8'')"



text \<open>The requests after a sequence of \<^verbatim>\<open>Var\<close> calls on a new request.\<close>

definition afterVars :: "string \<Rightarrow> (string \<times> govalue) list \<Rightarrow> GraphRequest" where
  "afterVars q calls = foldl (\<lambda>req kv. Var (fst kv) (snd kv) req) (NewGraphqlRequest q) calls"

text \<open>
  Test doubles: a library that accepts every URL, a transport that answers every request
  with a fixed status and body, a transport without network, and two targets, a pointer to
  an \<^verbatim>\<open>interface{}\<close> (it takes any value) and a pointer to a \<^verbatim>\<open>string\<close>.
\<close>

definition lib0 :: stdlib where
  "lib0 = \<lparr>url_Parse = (\<lambda>u. None), boundary = ''4d2f''\<rparr>"

definition reply :: "int \<Rightarrow> payload \<Rightarrow> http_request \<Rightarrow> error + http_response" where
  "reply code buf r = Inr \<lparr>StatusCode = code, Body = Inr buf\<rparr>"

definition offline :: "http_request \<Rightarrow> error + http_response" where
  "offline r = Inl (External ''no network'')"

definition any_target :: "json target" where
  "any_target = \<lparr>content = JNull, unmarshal = (\<lambda>v d. (None, v))\<rparr>"

definition string_target :: "string target" where
  "string_target =
     \<lparr>content = [],
      unmarshal = (\<lambda>v d. case v of JStr s \<Rightarrow> (None, s) | _ \<Rightarrow> (Some UnmarshalTypeError, d))\<rparr>"

text \<open>
  Fixed inputs: the endpoint, a request with one attachment, and two response bodies,
  \<^verbatim>\<open>{"data":null,"errors":[]}\<close> and
  \<^verbatim>\<open>{"data":null,"errors":[{"message":"not found","path":["item"]}]}\<close>.
\<close>

definition endpoint :: string where
  "endpoint = ''https://api.test/graphql''"

definition upload :: GraphRequest where
  "upload = AttachFile ''file'' ''a.txt'' (Inr ''hello'') (NewGraphqlRequest ''{ item }'')"

definition body_no_errors :: payload where
  "body_no_errors = JSONDoc (JObj [(''data'', JNull), (''errors'', JArr [])])"

definition body_not_found :: payload where
  "body_not_found =
     JSONDoc (JObj [(''data'', JNull),
       (''errors'', JArr [JObj [(''message'', JStr ''not found''), (''path'', JArr [JStr ''item''])]])])"


definition invalid_query :: string where
  "invalid_query = [CHR ''a'', CHR 0xFF, CHR ''b'']"

definition invalid_key_calls :: "(string \<times> govalue) list" where
  "invalid_key_calls = [([CHR 0xFF], Encodes (JNum 1)), ([CHR 0xFE], Encodes (JNum 2))]"


text \<open>
  A transport that answers 200 with \<^verbatim>\<open>{"data":null,"errors":[]}\<close>; a client in JSON mode
  and one in multipart mode on it; a request with the header \<^verbatim>\<open>X-Test: [a, b]\<close>, one with a
  variable and an attachment, and a sequence of \<^verbatim>\<open>Var\<close> calls that sets \<^verbatim>\<open>b\<close> twice.
\<close>

definition json_client :: Client where
  "json_client = NewClient offline endpoint [WithHTTPClient (reply 200 body_no_errors)]"


definition with_header :: GraphRequest where
  "with_header =
     (NewGraphqlRequest ''{ item }'')\<lparr>Header := Header_Add ''x-test'' ''b'' (Header_Add ''X-Test'' ''a'' [])\<rparr>"


definition var_calls :: "(string \<times> govalue) list" where
  "var_calls = [(''b'', Encodes (JNum 1)), (''a'', Encodes (JStr ''v'')), (''b'', Encodes (JNum 2))]"

section \<open>Properties\<close>

subsection \<open>Headers\<close>

lemma canon_Content_Type: "CanonicalMIMEHeaderKey ''Content-Type'' = ''Content-Type''"
  by code_simp

lemma canon_Accept: "CanonicalMIMEHeaderKey ''Accept'' = ''Accept''"
  by code_simp

lemma Values_update:
  "Values (AList.update k vs h) n = (if n = k then vs else Values h n)"
  by (simp add: Values_def update_conv')

lemma Values_Header_Set:
  "Values (Header_Set key v h) n = (if n = CanonicalMIMEHeaderKey key then [v] else Values h n)"
  by (simp add: Header_Set_def Values_update)

lemma Values_Header_Add:
  "Values (Header_Add key v h) n =
     (if n = CanonicalMIMEHeaderKey key then Values h n @ [v] else Values h n)"
  by (simp add: Header_Add_def Values_update)

lemma Values_addValues:
  "Values (addValues key vs h) n =
     (if n = CanonicalMIMEHeaderKey key then Values h n @ vs else Values h n)"
  by (induction vs arbitrary: h) (simp_all add: Values_Header_Add)

lemma Values_addEntries:
  "Values (addEntries es h) n = Values h n @ supplied es n"
proof (induction es arbitrary: h)
  case Nil
  show ?case by (simp add: supplied_def)
next
  case (Cons e es)
  obtain key vs where e: "e = (key, vs)" by (cases e)
  show ?case
    by (simp add: e Cons.IH Values_addValues supplied_def)
qed


lemma Values_Nil: "Values [] n = []"
  by (simp add: Values_def)

lemma Values_addHTTPHeaders:
  "ReqHeader r0 = [] \<Longrightarrow>
   Values (ReqHeader (addHTTPHeaders r0 req ct)) n = owned ct n @ supplied (Header req) n"
  unfolding addHTTPHeaders_def Let_def
  by (simp add: Values_addEntries Values_Header_Set canon_Content_Type canon_Accept
      Values_Nil owned_def)


lemma addHTTPHeaders_fields:
  "ReqBody (addHTTPHeaders r req ct) = ReqBody r"
  "ReqCtx (addHTTPHeaders r req ct) = ReqCtx r"
  "Method (addHTTPHeaders r req ct) = Method r"
  "URL (addHTTPHeaders r req ct) = URL r"
  "Close (addHTTPHeaders r req ct) = Close r"
  by (simp_all add: addHTTPHeaders_def Let_def)

lemma dispatch_sent_eq:
  "snd (dispatch lib c ctx req ct b) = [] \<or>
   snd (dispatch lib c ctx req ct b) =
     [(addHTTPHeaders \<lparr>Method = ''POST'', URL = url c, Close = closeReq c, ReqHeader = [],
         ReqBody = b, ReqCtx = Context None\<rparr> req ct)\<lparr>ReqCtx := ctx\<rparr>]"
  by (simp add: dispatch_def http_NewRequest_def Let_def split: option.split sum.split)

lemma dispatch_sent:
  assumes "r \<in> set (snd (dispatch lib c ctx req ct b))"
  shows "ReqBody r = b \<and> ReqCtx r = ctx \<and> Method r = ''POST'' \<and> URL r = url c \<and>
         Close r = closeReq c \<and>
         (\<forall>n. Values (ReqHeader r) n = owned ct n @ supplied (Header req) n)"
proof -
  let ?r0 = "\<lparr>Method = ''POST'', URL = url c, Close = closeReq c, ReqHeader = [],
         ReqBody = b, ReqCtx = Context None\<rparr>"
  from assms dispatch_sent_eq [of lib c ctx req ct b]
  have r: "r = (addHTTPHeaders ?r0 req ct)\<lparr>ReqCtx := ctx\<rparr>"
    by auto
  show ?thesis
    by (simp add: r addHTTPHeaders_fields Values_addHTTPHeaders)
qed


lemma answer_Nil: "answer c [] = None"
  by (simp add: answer_def)

lemma dispatch_answer:
  "answer c (snd (dispatch lib c ctx req ct b)) = Some (code, buf) \<longleftrightarrow>
   fst (dispatch lib c ctx req ct b) = Inr (code, buf)"
  by (auto simp: dispatch_def answer_def Let_def split: sum.splits)

lemma runWithJSON_answer:
  assumes "answer c (sent (runWithJSON lib c ctx req tg)) = Some (code, buf)"
  shows "returned (runWithJSON lib c ctx req tg) =
           (if code \<noteq> 200 then Inl (StatusNotOK code)
            else (case Decode decode_GraphErr (zeroGraphErr JNull) tg buf of
                    (g, d, Some e) \<Rightarrow> Inl (Wrap e ''decoding response'')
                  | (g, d, None) \<Rightarrow> Inr g))"
    and "target_after (runWithJSON lib c ctx req tg) =
           (if code \<noteq> 200 then content tg else fst (snd (Decode decode_GraphErr (zeroGraphErr JNull) tg buf)))"
proof -
  obtain b where b: "marshal_graphqlModel (query req) (vars req) = Inr b"
    using assms by (cases "marshal_graphqlModel (query req) (vars req)")
      (simp_all add: runWithJSON_def answer_Nil)
  obtain x rs where d: "dispatch lib c ctx req ''application/json; charset=utf-8'' (JSONBody b) = (x, rs)"
    by (cases "dispatch lib c ctx req ''application/json; charset=utf-8'' (JSONBody b)")
  have s: "sent (runWithJSON lib c ctx req tg) = rs"
    by (simp add: runWithJSON_def b d split: sum.split prod.split option.split)
  have x: "x = Inr (code, buf)"
    using assms dispatch_answer [of c lib ctx req "''application/json; charset=utf-8''" "JSONBody b" code buf]
    by (simp add: s d)
  show "returned (runWithJSON lib c ctx req tg) =
           (if code \<noteq> 200 then Inl (StatusNotOK code)
            else (case Decode decode_GraphErr (zeroGraphErr JNull) tg buf of
                    (g, d, Some e) \<Rightarrow> Inl (Wrap e ''decoding response'')
                  | (g, d, None) \<Rightarrow> Inr g))"
    by (simp add: runWithJSON_def b d x split: prod.split option.split)
  show "target_after (runWithJSON lib c ctx req tg) =
           (if code \<noteq> 200 then content tg else fst (snd (Decode decode_GraphErr (zeroGraphErr JNull) tg buf)))"
    by (simp add: runWithJSON_def b d x split: prod.split option.split)
qed


lemma runWithPostFields_answer:
  assumes "answer c (sent (runWithPostFields lib c ctx req tg)) = Some (code, buf)"
  shows "returned (runWithPostFields lib c ctx req tg) =
           (case Decode decode_GraphErr (zeroGraphErr JNull) tg buf of
              (g, d, Some e) \<Rightarrow>
                if code \<noteq> 200 then Inl (StatusNotOK code) else Inl (Wrap e ''decoding response'')
            | (g, d, None) \<Rightarrow> Inr g)"
    and "target_after (runWithPostFields lib c ctx req tg) = fst (snd (Decode decode_GraphErr (zeroGraphErr JNull) tg buf))"
proof -
  obtain ps where b: "writeForm req = Inr ps"
    using assms by (cases "writeForm req") (simp_all add: runWithPostFields_def answer_Nil)
  obtain x rs where d: "dispatch lib c ctx req (FormDataContentType lib) (FormBody ps) = (x, rs)"
    by (cases "dispatch lib c ctx req (FormDataContentType lib) (FormBody ps)")
  have s: "sent (runWithPostFields lib c ctx req tg) = rs"
    by (simp add: runWithPostFields_def b d split: sum.split prod.split option.split)
  have x: "x = Inr (code, buf)"
    using assms dispatch_answer [of c lib ctx req "FormDataContentType lib" "FormBody ps" code buf]
    by (simp add: s d)
  show "returned (runWithPostFields lib c ctx req tg) =
           (case Decode decode_GraphErr (zeroGraphErr JNull) tg buf of
              (g, d, Some e) \<Rightarrow>
                if code \<noteq> 200 then Inl (StatusNotOK code) else Inl (Wrap e ''decoding response'')
            | (g, d, None) \<Rightarrow> Inr g)"
    by (simp add: runWithPostFields_def b d x split: prod.split option.split)
  show "target_after (runWithPostFields lib c ctx req tg) = fst (snd (Decode decode_GraphErr (zeroGraphErr JNull) tg buf))"
    by (simp add: runWithPostFields_def b d x split: prod.split option.split)
qed

lemma runWithJSON_legacy_answer:
  assumes "answer c (sent_legacy (runWithJSON_legacy lib c ctx req tg et)) = Some (code, buf)"
  shows "returned_legacy (runWithJSON_legacy lib c ctx req tg et) =
           (if code \<noteq> 200 then Some (StatusNotOK code)
            else (case Decode decode_graphErr zero_graphErr tg buf of
                    (gr, d, Some e) \<Rightarrow> Some (Wrap e ''decoding response'')
                  | (gr, d, None) \<Rightarrow> firstError gr))"
    and "errorResp_after (runWithJSON_legacy lib c ctx req tg et) =
           (if code \<noteq> 200 then Unmarshal_discard et (whole buf) else content et)"
proof -
  obtain b where b: "marshal_graphqlModel (query req) (vars req) = Inr b"
    using assms by (cases "marshal_graphqlModel (query req) (vars req)")
      (simp_all add: runWithJSON_legacy_def answer_Nil)
  obtain x rs where d: "dispatch lib c ctx req ''application/json; charset=utf-8'' (JSONBody b) = (x, rs)"
    by (cases "dispatch lib c ctx req ''application/json; charset=utf-8'' (JSONBody b)")
  have s: "sent_legacy (runWithJSON_legacy lib c ctx req tg et) = rs"
    by (simp add: runWithJSON_legacy_def b d split: sum.split prod.split option.split)
  have x: "x = Inr (code, buf)"
    using assms dispatch_answer [of c lib ctx req "''application/json; charset=utf-8''" "JSONBody b" code buf]
    by (simp add: s d)
  show "returned_legacy (runWithJSON_legacy lib c ctx req tg et) =
           (if code \<noteq> 200 then Some (StatusNotOK code)
            else (case Decode decode_graphErr zero_graphErr tg buf of
                    (gr, d, Some e) \<Rightarrow> Some (Wrap e ''decoding response'')
                  | (gr, d, None) \<Rightarrow> firstError gr))"
    by (simp add: runWithJSON_legacy_def b d x split: prod.split option.split)
  show "errorResp_after (runWithJSON_legacy lib c ctx req tg et) =
           (if code \<noteq> 200 then Unmarshal_discard et (whole buf) else content et)"
    by (simp add: runWithJSON_legacy_def b d x split: prod.split option.split)
qed

lemma runWithPostFields_legacy_answer:
  assumes "answer c (sent_legacy (runWithPostFields_legacy lib c ctx req tg et)) = Some (code, buf)"
  shows "returned_legacy (runWithPostFields_legacy lib c ctx req tg et) =
           (case Decode decode_graphErr zero_graphErr tg buf of
              (gr, d, Some e) \<Rightarrow>
                if code \<noteq> 200 then Some (StatusNotOK code)
                else Some (Wrap e ''decoding response'')
            | (gr, d, None) \<Rightarrow> firstError gr)"
    and "errorResp_after (runWithPostFields_legacy lib c ctx req tg et) =
           (case Decode decode_graphErr zero_graphErr tg buf of
              (gr, d, Some e) \<Rightarrow> if code \<noteq> 200 then Unmarshal_discard et (unread buf) else content et
            | (gr, d, None) \<Rightarrow> content et)"
proof -
  obtain ps where b: "writeForm req = Inr ps"
    using assms by (cases "writeForm req") (simp_all add: runWithPostFields_legacy_def answer_Nil)
  obtain x rs where d: "dispatch lib c ctx req (FormDataContentType lib) (FormBody ps) = (x, rs)"
    by (cases "dispatch lib c ctx req (FormDataContentType lib) (FormBody ps)")
  have s: "sent_legacy (runWithPostFields_legacy lib c ctx req tg et) = rs"
    by (simp add: runWithPostFields_legacy_def b d split: sum.split prod.split option.split)
  have x: "x = Inr (code, buf)"
    using assms dispatch_answer [of c lib ctx req "FormDataContentType lib" "FormBody ps" code buf]
    by (simp add: s d)
  show "returned_legacy (runWithPostFields_legacy lib c ctx req tg et) =
           (case Decode decode_graphErr zero_graphErr tg buf of
              (gr, d, Some e) \<Rightarrow>
                if code \<noteq> 200 then Some (StatusNotOK code)
                else Some (Wrap e ''decoding response'')
            | (gr, d, None) \<Rightarrow> firstError gr)"
    by (simp add: runWithPostFields_legacy_def b d x split: prod.split option.split)
  show "errorResp_after (runWithPostFields_legacy lib c ctx req tg et) =
           (case Decode decode_graphErr zero_graphErr tg buf of
              (gr, d, Some e) \<Rightarrow> if code \<noteq> 200 then Unmarshal_discard et (unread buf) else content et
            | (gr, d, None) \<Rightarrow> content et)"
    by (simp add: runWithPostFields_legacy_def b d x split: prod.split option.split)
qed

lemma Run_unfold:
  "Run lib c ctx req tg =
     (if Err ctx \<noteq> None \<or> (files req \<noteq> [] \<and> \<not> useMultipartForm c)
      then \<lparr>returned = Inl (case Err ctx of Some e \<Rightarrow> e
                             | None \<Rightarrow> ErrorString ''cannot send files with PostFields option''),
             target_after = content tg, sent = []\<rparr>
      else if useMultipartForm c then runWithPostFields lib c ctx req tg
      else runWithJSON lib c ctx req tg)"
  by (auto simp: Run_def split: option.split)

lemma Run_legacy_unfold:
  "Run_legacy lib c ctx req tg et =
     (if Err ctx \<noteq> None \<or> (files req \<noteq> [] \<and> \<not> useMultipartForm c)
      then \<lparr>returned_legacy = Some (case Err ctx of Some e \<Rightarrow> e
                             | None \<Rightarrow> ErrorString ''cannot send files with PostFields option''),
             resp_after = content tg, errorResp_after = content et, sent_legacy = []\<rparr>
      else if useMultipartForm c then runWithPostFields_legacy lib c ctx req tg et
      else runWithJSON_legacy lib c ctx req tg et)"
  by (auto simp: Run_legacy_def split: option.split)

lemma Run_answered:
  assumes "answer c (sent (Run lib c ctx req tg)) = Some (code, buf)"
  shows "Run lib c ctx req tg =
           (if useMultipartForm c then runWithPostFields lib c ctx req tg
            else runWithJSON lib c ctx req tg)"
  using assms by (auto simp: Run_unfold answer_Nil)

lemma Run_legacy_answered:
  assumes "answer c (sent_legacy (Run_legacy lib c ctx req tg et)) = Some (code, buf)"
  shows "Run_legacy lib c ctx req tg et =
           (if useMultipartForm c then runWithPostFields_legacy lib c ctx req tg et
            else runWithJSON_legacy lib c ctx req tg et)"
  using assms by (auto simp: Run_legacy_unfold answer_Nil)

subsection \<open>The guards of \<^verbatim>\<open>Run\<close>\<close>

text \<open>
  C4. If the context is already cancelled or expired when \<^verbatim>\<open>Run\<close> is called, \<^verbatim>\<open>Run\<close>
  returns the error of the context and nothing is handed to the transport, whatever the
  request carries and whatever the mode of the client is: the guard comes first. This holds
  in both calling conventions.
\<close>

theorem Run_cancelled_context:
  assumes "Err ctx = Some e"
  shows "returned (Run lib c ctx req tg) = Inl e \<and> sent (Run lib c ctx req tg) = [] \<and>
         returned_legacy (Run_legacy lib c ctx req tg et) = Some e \<and>
         sent_legacy (Run_legacy lib c ctx req tg et) = []"
  using assms by (simp add: Run_def Run_legacy_def)

theorem Run_cancelled_context_witness:
  "Err (Context (Some Canceled)) = Some Canceled \<and>
   returned (Run lib0 (NewClient offline endpoint []) (Context (Some Canceled))
      upload
      any_target) = Inl Canceled \<and>
   sent (Run lib0 (NewClient offline endpoint []) (Context (Some Canceled))
      upload
      any_target) = [] \<and>
   returned_legacy (Run_legacy lib0 (NewClient offline endpoint [])
      (Context (Some Canceled))
      upload
      any_target string_target) = Some Canceled \<and>
   sent_legacy (Run_legacy lib0 (NewClient offline endpoint [])
      (Context (Some Canceled))
      upload
      any_target string_target) = []"
  using Run_cancelled_context [of "Context (Some Canceled)" Canceled lib0
      "NewClient offline endpoint []"
      upload
      any_target string_target]
  by simp

lemma no_send_without_multipart:
  assumes "files req \<noteq> []" and "\<not> useMultipartForm c"
  shows "sent (Run lib c ctx req tg) = [] \<and> sent_legacy (Run_legacy lib c ctx req tg et) = []"
  using assms by (simp add: Run_unfold Run_legacy_unfold)

text \<open>
  C3. When the context is live, so that \<^verbatim>\<open>Run\<close> comes to its second guard (a context that
  is already cancelled is the case of the first guard, C4): for a request with at least one
  attachment and a client that is not in multipart mode, \<^verbatim>\<open>Run\<close> returns the
  configuration-mismatch error and hands nothing to the transport. This holds in both calling
  conventions.
\<close>

theorem Run_files_without_multipart:
  assumes "files req \<noteq> []" and "\<not> useMultipartForm c" and "Err ctx = None"
  shows "returned (Run lib c ctx req tg) =
           Inl (ErrorString ''cannot send files with PostFields option'') \<and>
         sent (Run lib c ctx req tg) = [] \<and>
         returned_legacy (Run_legacy lib c ctx req tg et) =
           Some (ErrorString ''cannot send files with PostFields option'') \<and>
         sent_legacy (Run_legacy lib c ctx req tg et) = []"
  using assms by (simp add: Run_unfold Run_legacy_unfold)

theorem Run_files_without_multipart_witness:
  "files upload \<noteq> [] \<and> \<not> useMultipartForm (NewClient offline endpoint []) \<and>
   Err (Context None) = None \<and>
   returned (Run lib0 (NewClient offline endpoint []) (Context None) upload any_target) =
     Inl (ErrorString ''cannot send files with PostFields option'') \<and>
   sent (Run lib0 (NewClient offline endpoint []) (Context None) upload any_target) = [] \<and>
   returned_legacy (Run_legacy lib0 (NewClient offline endpoint []) (Context None) upload
     any_target string_target) = Some (ErrorString ''cannot send files with PostFields option'') \<and>
   sent_legacy (Run_legacy lib0 (NewClient offline endpoint []) (Context None) upload
     any_target string_target) = []"
  using Run_files_without_multipart [of upload "NewClient offline endpoint []" "Context None"
      lib0 any_target string_target]
  by (simp add: upload_def AttachFile_def NewClient_def)

subsection \<open>The response: status and body\<close>

lemma Run_JSON_non200:
  assumes "answer c (sent (Run lib c ctx req tg)) = Some (code, buf)"
    and "\<not> useMultipartForm c" and "code \<noteq> 200"
  shows "returned (Run lib c ctx req tg) = Inl (StatusNotOK code)"
proof -
  have "Run lib c ctx req tg = runWithJSON lib c ctx req tg"
    using Run_answered [OF assms(1)] assms(2) by simp
  with assms(1,3) runWithJSON_answer(1) [of c lib ctx req tg code buf]
  show ?thesis by simp
qed

lemma Run_legacy_JSON_non200:
  assumes "answer c (sent_legacy (Run_legacy lib c ctx req tg et)) = Some (code, buf)"
    and "\<not> useMultipartForm c" and "code \<noteq> 200"
  shows "returned_legacy (Run_legacy lib c ctx req tg et) = Some (StatusNotOK code)"
    and "errorResp_after (Run_legacy lib c ctx req tg et) = Unmarshal_discard et (whole buf)"
proof -
  have eq: "Run_legacy lib c ctx req tg et = runWithJSON_legacy lib c ctx req tg et"
    using Run_legacy_answered [OF assms(1)] assms(2) by simp
  from eq assms(1,3) runWithJSON_legacy_answer(1) [of c lib ctx req tg et code buf]
  show "returned_legacy (Run_legacy lib c ctx req tg et) = Some (StatusNotOK code)" by simp
  from eq assms(1,3) runWithJSON_legacy_answer(2) [of c lib ctx req tg et code buf]
  show "errorResp_after (Run_legacy lib c ctx req tg et) = Unmarshal_discard et (whole buf)" by simp
qed

lemma Run_multipart_answer:
  assumes "answer c (sent (Run lib c ctx req tg)) = Some (code, buf)"
    and "useMultipartForm c"
  shows "returned (Run lib c ctx req tg) =
           (case Decode decode_GraphErr (zeroGraphErr JNull) tg buf of
              (g, d, Some e) \<Rightarrow>
                if code \<noteq> 200 then Inl (StatusNotOK code) else Inl (Wrap e ''decoding response'')
            | (g, d, None) \<Rightarrow> Inr g)"
proof -
  have "Run lib c ctx req tg = runWithPostFields lib c ctx req tg"
    using Run_answered [OF assms(1)] assms(2) by simp
  with assms(1) runWithPostFields_answer(1) [of c lib ctx req tg code buf]
  show ?thesis by simp
qed

lemma Run_legacy_multipart_answer:
  assumes "answer c (sent_legacy (Run_legacy lib c ctx req tg et)) = Some (code, buf)"
    and "useMultipartForm c"
  shows "returned_legacy (Run_legacy lib c ctx req tg et) =
           (case Decode decode_graphErr zero_graphErr tg buf of
              (gr, d, Some e) \<Rightarrow>
                if code \<noteq> 200 then Some (StatusNotOK code)
                else Some (Wrap e ''decoding response'')
            | (gr, d, None) \<Rightarrow> firstError gr)"
    and "errorResp_after (Run_legacy lib c ctx req tg et) =
           (case Decode decode_graphErr zero_graphErr tg buf of
              (gr, d, Some e) \<Rightarrow> if code \<noteq> 200 then Unmarshal_discard et (unread buf) else content et
            | (gr, d, None) \<Rightarrow> content et)"
proof -
  have eq: "Run_legacy lib c ctx req tg et = runWithPostFields_legacy lib c ctx req tg et"
    using Run_legacy_answered [OF assms(1)] assms(2) by simp
  from eq assms(1) runWithPostFields_legacy_answer(1) [of c lib ctx req tg et code buf]
  show "returned_legacy (Run_legacy lib c ctx req tg et) =
           (case Decode decode_graphErr zero_graphErr tg buf of
              (gr, d, Some e) \<Rightarrow>
                if code \<noteq> 200 then Some (StatusNotOK code)
                else Some (Wrap e ''decoding response'')
            | (gr, d, None) \<Rightarrow> firstError gr)" by simp
  from eq assms(1) runWithPostFields_legacy_answer(2) [of c lib ctx req tg et code buf]
  show "errorResp_after (Run_legacy lib c ctx req tg et) =
           (case Decode decode_graphErr zero_graphErr tg buf of
              (gr, d, Some e) \<Rightarrow> if code \<noteq> 200 then Unmarshal_discard et (unread buf) else content et
            | (gr, d, None) \<Rightarrow> content et)" by simp
qed

lemma Run_status_OK:
  assumes "answer c (sent (Run lib c ctx req tg)) = Some (200, buf)"
  shows "returned (Run lib c ctx req tg) =
           (case Decode decode_GraphErr (zeroGraphErr JNull) tg buf of
              (g, d, Some e) \<Rightarrow> Inl (Wrap e ''decoding response'')
            | (g, d, None) \<Rightarrow> Inr g)"
proof (cases "useMultipartForm c")
  case True
  from Run_multipart_answer [OF assms True] show ?thesis
    by (simp split: prod.split option.split)
next
  case False
  have "Run lib c ctx req tg = runWithJSON lib c ctx req tg"
    using Run_answered [OF assms] False by simp
  with assms runWithJSON_answer(1) [of c lib ctx req tg 200 buf]
  show ?thesis by simp
qed

lemma Run_legacy_status_OK:
  assumes "answer c (sent_legacy (Run_legacy lib c ctx req tg et)) = Some (200, buf)"
  shows "returned_legacy (Run_legacy lib c ctx req tg et) =
           (case Decode decode_graphErr zero_graphErr tg buf of
              (gr, d, Some e) \<Rightarrow> Some (Wrap e ''decoding response'')
            | (gr, d, None) \<Rightarrow> firstError gr)"
proof (cases "useMultipartForm c")
  case True
  from Run_legacy_multipart_answer(1) [OF assms True] show ?thesis
    by (simp split: prod.split option.split)
next
  case False
  have "Run_legacy lib c ctx req tg et = runWithJSON_legacy lib c ctx req tg et"
    using Run_legacy_answered [OF assms] False by simp
  with assms runWithJSON_legacy_answer(1) [of c lib ctx req tg et 200 buf]
  show ?thesis by simp
qed

text \<open>
  C1. The claim is that a status other than 200 always gives the status error, in JSON and
  in multipart mode, even when the body decodes as an envelope. \<^verbatim>\<open>runWithJSON\<close> does so
  (\<open>Run_JSON_non200\<close>). \<^verbatim>\<open>runWithPostFields\<close> decodes first and looks at the status only
  when the decoding has failed: with status 500 and the body
  \<^verbatim>\<open>{"data":null,"errors":[]}\<close>, a client in multipart mode returns the envelope and a nil
  error.
\<close>

theorem multipart_non200_parsed_body_is_success:
  "returned (Run lib0
      (NewClient offline endpoint [WithHTTPClient (reply 500 body_no_errors), UseMultipartForm])
      (Context None) (NewGraphqlRequest ''{ item }'') any_target)
   = Inr (Some \<lparr>Data = Nil, Errors = []\<rparr>)"
  by code_simp

text \<open>
  C2, as amended. When the status is 200 and the body decodes as the envelope with a
  non-empty list of errors: in the unified calling convention \<^verbatim>\<open>Run\<close> returns that
  envelope, which holds the whole list in order, and a nil error; in the legacy calling
  convention \<^verbatim>\<open>Run\<close> returns the first error of the list as its error (and no envelope).
\<close>

theorem Run_graphql_errors:
  "(answer c (sent (Run lib c ctx req tg)) = Some (200, buf) \<and>
    Decode decode_GraphErr (zeroGraphErr JNull) tg buf = (Some g, d, None) \<and> Errors g \<noteq> []
      \<longrightarrow> returned (Run lib c ctx req tg) = Inr (Some g)) \<and>
   (answer c (sent_legacy (Run_legacy lib c ctx req tg et)) = Some (200, buf) \<and>
    Decode decode_graphErr zero_graphErr tg buf = (Some gr, d', None) \<and> Errors gr \<noteq> []
      \<longrightarrow> returned_legacy (Run_legacy lib c ctx req tg et) = Some (GraphQLError (hd (Errors gr))))"
proof (intro conjI impI)
  assume "answer c (sent (Run lib c ctx req tg)) = Some (200, buf) \<and>
    Decode decode_GraphErr (zeroGraphErr JNull) tg buf = (Some g, d, None) \<and> Errors g \<noteq> []"
  then show "returned (Run lib c ctx req tg) = Inr (Some g)"
    using Run_status_OK [of c lib ctx req tg buf] by simp
next
  assume a: "answer c (sent_legacy (Run_legacy lib c ctx req tg et)) = Some (200, buf) \<and>
    Decode decode_graphErr zero_graphErr tg buf = (Some gr, d', None) \<and> Errors gr \<noteq> []"
  then obtain e es where "Errors gr = e # es" by (cases "Errors gr") auto
  with a show "returned_legacy (Run_legacy lib c ctx req tg et) = Some (GraphQLError (hd (Errors gr)))"
    using Run_legacy_status_OK [of c lib ctx req tg et buf] by (simp add: firstError_def)
qed


theorem Run_graphql_errors_witness:
  "answer (NewClient offline endpoint [WithHTTPClient (reply 200 body_not_found)])
     (sent (Run lib0 (NewClient offline endpoint [WithHTTPClient (reply 200 body_not_found)])
        (Context None) (NewGraphqlRequest ''{ item }'') any_target)) = Some (200, body_not_found) \<and>
   Decode decode_GraphErr (zeroGraphErr JNull) any_target body_not_found =
     (Some \<lparr>Data = Nil, Errors = [\<lparr>Message = JStr ''not found'', ErrorExtensions = None,
        Locations = [], Path = [''item'']\<rparr>]\<rparr>, JNull, None) \<and>
   returned (Run lib0 (NewClient offline endpoint [WithHTTPClient (reply 200 body_not_found)])
     (Context None) (NewGraphqlRequest ''{ item }'') any_target) =
     Inr (Some \<lparr>Data = Nil, Errors = [\<lparr>Message = JStr ''not found'', ErrorExtensions = None,
        Locations = [], Path = [''item'']\<rparr>]\<rparr>) \<and>
   answer (NewClient offline endpoint [WithHTTPClient (reply 200 body_not_found)])
     (sent_legacy (Run_legacy lib0
        (NewClient offline endpoint [WithHTTPClient (reply 200 body_not_found)])
        (Context None) (NewGraphqlRequest ''{ item }'') any_target string_target)) =
     Some (200, body_not_found) \<and>
   Decode decode_graphErr zero_graphErr any_target body_not_found =
     (Some \<lparr>Data = Nil, Errors = [\<lparr>Message' = ''not found'', ErrorExtensions' = None\<rparr>]\<rparr>,
      JNull, None) \<and>
   returned_legacy (Run_legacy lib0
      (NewClient offline endpoint [WithHTTPClient (reply 200 body_not_found)])
      (Context None) (NewGraphqlRequest ''{ item }'') any_target string_target) =
     Some (GraphQLError \<lparr>Message' = ''not found'', ErrorExtensions' = None\<rparr>)"
proof -
  let ?c = "NewClient offline endpoint [WithHTTPClient (reply 200 body_not_found)]"
  let ?req = "NewGraphqlRequest ''{ item }''"
  let ?g = "\<lparr>Data = Nil, Errors = [\<lparr>Message = JStr ''not found'', ErrorExtensions = None,
        Locations = [], Path = [''item'']\<rparr>]\<rparr>"
  let ?gr = "\<lparr>Data = Nil, Errors = [\<lparr>Message' = ''not found'', ErrorExtensions' = None\<rparr>]\<rparr>"
  have a: "answer ?c (sent (Run lib0 ?c (Context None) ?req any_target)) = Some (200, body_not_found)"
    by code_simp
  have b: "Decode decode_GraphErr (zeroGraphErr JNull) any_target body_not_found = (Some ?g, JNull, None)"
    by code_simp
  have a': "answer ?c (sent_legacy (Run_legacy lib0 ?c (Context None) ?req any_target string_target))
      = Some (200, body_not_found)"
    by code_simp
  have b': "Decode decode_graphErr zero_graphErr any_target body_not_found = (Some ?gr, JNull, None)"
    by code_simp
  from a b a' b'
    Run_graphql_errors [of ?c lib0 "Context None" ?req any_target body_not_found ?g JNull
      string_target ?gr JNull]
  show ?thesis by simp
qed

text \<open>
  C2 as stated fails in the unified calling convention: with status 200 and the body
  \<^verbatim>\<open>{"data":null,"errors":[{"message":"not found","path":["item"]}]}\<close> the result of
  \<^verbatim>\<open>Run\<close> is the envelope with a nil error, not the first error of the list.
\<close>

theorem Run_graphql_errors_counterexample:
  "returned (Run lib0 (NewClient offline endpoint [WithHTTPClient (reply 200 body_not_found)])
     (Context None) (NewGraphqlRequest ''{ item }'') any_target) =
     Inr (Some \<lparr>Data = Nil, Errors = [\<lparr>Message = JStr ''not found'', ErrorExtensions = None,
        Locations = [], Path = [''item'']\<rparr>]\<rparr>) \<and>
   \<not> isl (returned (Run lib0
     (NewClient offline endpoint [WithHTTPClient (reply 200 body_not_found)])
     (Context None) (NewGraphqlRequest ''{ item }'') any_target))"
  by code_simp

text \<open>
  C10. The claim is that the legacy \<^verbatim>\<open>Run\<close>, on a status other than 200, unmarshals the
  body into the error target, drops the error of that unmarshalling, and returns the status
  error. The legacy \<^verbatim>\<open>runWithJSON\<close> does so (\<open>Run_legacy_JSON_non200\<close>). The legacy
  \<^verbatim>\<open>runWithPostFields\<close> does it only when the body has failed to decode as the envelope:
  with status 500 and the body \<^verbatim>\<open>{"data":null,"errors":[]}\<close> it returns nil and leaves the
  error target as it was, although the body would have been stored there.
\<close>

theorem legacy_multipart_non200_error_target_untouched:
  "returned_legacy (Run_legacy lib0
      (NewClient offline endpoint [WithHTTPClient (reply 500 body_no_errors), UseMultipartForm])
      (Context None) (NewGraphqlRequest ''{ item }'') any_target any_target) = None \<and>
   errorResp_after (Run_legacy lib0
      (NewClient offline endpoint [WithHTTPClient (reply 500 body_no_errors), UseMultipartForm])
      (Context None) (NewGraphqlRequest ''{ item }'') any_target any_target) = content any_target \<and>
   Unmarshal_discard any_target (whole body_no_errors) \<noteq> content any_target"
  by code_simp

subsection \<open>Decoding the message of an error\<close>

lemma saveError_None [simp]: "saveError a b = None \<longleftrightarrow> a = None \<and> b = None"
  by (simp add: saveError_def split: option.split)

lemma saveError_simps [simp]: "saveError None e = e" "saveError a None = a"
  by (simp_all add: saveError_def split: option.split)






















subsection \<open>What is handed to the transport\<close>

lemma sent_runWithJSON:
  "sent (runWithJSON lib c ctx req tg) =
     (case marshal_graphqlModel (query req) (vars req) of
        Inl e \<Rightarrow> []
      | Inr b \<Rightarrow> snd (dispatch lib c ctx req ''application/json; charset=utf-8'' (JSONBody b)))"
  by (simp add: runWithJSON_def split: sum.split prod.split option.split)

lemma sent_runWithPostFields:
  "sent (runWithPostFields lib c ctx req tg) =
     (case writeForm req of
        Inl e \<Rightarrow> []
      | Inr ps \<Rightarrow> snd (dispatch lib c ctx req (FormDataContentType lib) (FormBody ps)))"
  by (simp add: runWithPostFields_def split: sum.split prod.split option.split)

lemma sent_runWithJSON_legacy:
  "sent_legacy (runWithJSON_legacy lib c ctx req tg et) =
     (case marshal_graphqlModel (query req) (vars req) of
        Inl e \<Rightarrow> []
      | Inr b \<Rightarrow> snd (dispatch lib c ctx req ''application/json; charset=utf-8'' (JSONBody b)))"
  by (simp add: runWithJSON_legacy_def split: sum.split prod.split option.split)

lemma sent_runWithPostFields_legacy:
  "sent_legacy (runWithPostFields_legacy lib c ctx req tg et) =
     (case writeForm req of
        Inl e \<Rightarrow> []
      | Inr ps \<Rightarrow> snd (dispatch lib c ctx req (FormDataContentType lib) (FormBody ps)))"
  by (simp add: runWithPostFields_legacy_def split: sum.split prod.split option.split)

lemma sent_Run:
  "sent (Run lib c ctx req tg) =
     (if Err ctx \<noteq> None \<or> (files req \<noteq> [] \<and> \<not> useMultipartForm c) then []
      else if useMultipartForm c
      then (case writeForm req of
              Inl e \<Rightarrow> []
            | Inr ps \<Rightarrow> snd (dispatch lib c ctx req (FormDataContentType lib) (FormBody ps)))
      else (case marshal_graphqlModel (query req) (vars req) of
              Inl e \<Rightarrow> []
            | Inr b \<Rightarrow> snd (dispatch lib c ctx req ''application/json; charset=utf-8'' (JSONBody b))))"
  by (simp add: Run_unfold sent_runWithJSON sent_runWithPostFields)

lemma sent_Run_legacy:
  "sent_legacy (Run_legacy lib c ctx req tg et) = sent (Run lib c ctx req tg')"
  by (simp add: sent_Run Run_legacy_unfold sent_runWithJSON_legacy sent_runWithPostFields_legacy)

lemma Run_sent_JSON:
  assumes "r \<in> set (sent (Run lib c ctx req tg))" and "\<not> useMultipartForm c"
  shows "files req = [] \<and>
         (\<exists>b. marshal_graphqlModel (query req) (vars req) = Inr b \<and>
              r \<in> set (snd (dispatch lib c ctx req ''application/json; charset=utf-8'' (JSONBody b))))"
  using assms
  by (cases "marshal_graphqlModel (query req) (vars req)") (auto simp: sent_Run split: if_splits)

lemma Run_sent_multipart:
  assumes "r \<in> set (sent (Run lib c ctx req tg))" and "useMultipartForm c"
  shows "\<exists>ps. writeForm req = Inr ps \<and>
              r \<in> set (snd (dispatch lib c ctx req (FormDataContentType lib) (FormBody ps)))"
  using assms by (cases "writeForm req") (auto simp: sent_Run split: if_splits)

lemma collect_marshal_entry:
  "collect (map marshal_entry xs) = Inr ms \<Longrightarrow>
   map (\<lambda>kj. (fst kj, Encodes (snd kj))) ms = xs"
proof (induction xs arbitrary: ms)
  case Nil
  then show ?case by simp
next
  case (Cons x xs)
  then show ?case
    by (cases x) (auto simp: marshal_entry_def split: sum.splits govalue.splits)
qed

lemma marshal_vars_cases:
  assumes "marshal_vars v = Inr j"
  shows "(v = None \<and> j = JNull) \<or>
         (\<exists>m ms. v = Some m \<and> j = JObj (map (\<lambda>kj. (toValidUTF8 (fst kj), snd kj)) ms) \<and>
                  map (\<lambda>kj. (fst kj, Encodes (snd kj))) ms = sort_key fst m)"
  using assms
  by (auto simp: marshal_vars_def dest: collect_marshal_entry split: option.splits sum.splits)

lemma toValidUTF8_valid: "ValidString s \<Longrightarrow> toValidUTF8 s = s"
proof (induction s rule: toValidUTF8.induct)
  case (1 s)
  show ?case
  proof (cases "s = []")
    case True
    then show ?thesis by (simp add: toValidUTF8.simps)
  next
    case False
    from "1.prems" False have n: "runeLen s \<noteq> 0" and v: "ValidString (drop (runeLen s) s)"
      by (simp_all add: ValidString.simps [of s] split: if_splits)
    from "1.IH"(2) [OF False n v] have "toValidUTF8 (drop (runeLen s) s) = drop (runeLen s) s" .
    with False n show ?thesis by (simp add: toValidUTF8.simps [of s])
  qed
qed



lemma Var_fields:
  "vars (Var k v req) = Some (AList.update k v (case vars req of None \<Rightarrow> [] | Some m \<Rightarrow> m))"
  "query (Var k v req) = query req"
  "files (Var k v req) = files req"
  "Header (Var k v req) = Header req"
  by (simp_all add: Var_def Let_def split: option.split)

lemma foldl_Var_fields:
  "query (foldl (\<lambda>req kv. Var (fst kv) (snd kv) req) req0 calls) = query req0"
  "files (foldl (\<lambda>req kv. Var (fst kv) (snd kv) req) req0 calls) = files req0"
  "Header (foldl (\<lambda>req kv. Var (fst kv) (snd kv) req) req0 calls) = Header req0"
  by (induction calls arbitrary: req0) (simp_all add: Var_fields)

lemma foldl_Var_vars:
  "vars (foldl (\<lambda>req kv. Var (fst kv) (snd kv) req) req0 calls) =
     (if calls = [] then vars req0
      else Some (foldl (\<lambda>m kv. AList.update (fst kv) (snd kv) m)
                   (case vars req0 of None \<Rightarrow> [] | Some m \<Rightarrow> m) calls))"
proof (induction calls arbitrary: req0)
  case Nil
  show ?case by simp
next
  case (Cons kv calls)
  show ?case by (simp add: Cons.IH Var_fields)
qed

lemma map_of_foldl_update:
  "map_of (foldl (\<lambda>m kv. AList.update (fst kv) (snd kv) m) m calls) k =
     (case map_of (rev calls) k of None \<Rightarrow> map_of m k | Some v \<Rightarrow> Some v)"
proof (induction calls arbitrary: m)
  case Nil
  show ?case by simp
next
  case (Cons kv calls)
  show ?case
    by (cases kv) (simp add: Cons.IH update_conv' map_add_def split: option.split)
qed

lemma distinct_foldl_update:
  "distinct (map fst m) \<Longrightarrow>
   distinct (map fst (foldl (\<lambda>m kv. AList.update (fst kv) (snd kv) m) m calls))"
  by (induction calls arbitrary: m) (simp_all add: distinct_update)


lemma Header_Get_owned:
  assumes "Values h ''Content-Type'' = owned ct ''Content-Type'' @ xs"
    and "Values h ''Accept'' = owned ct ''Accept'' @ ys"
  shows "Header_Get ''Content-Type'' h = ct"
    and "Header_Get ''Accept'' h = ''application/json; charset=utf-8''"
  using assms by (simp_all add: Header_Get_def canon_Content_Type canon_Accept owned_def)

lemma supplied_contains:
  assumes "(k, vs) \<in> set h"
  shows "\<exists>pre post. supplied h (CanonicalMIMEHeaderKey k) = pre @ vs @ post"
proof -
  let ?P = "\<lambda>e. CanonicalMIMEHeaderKey (fst e) = CanonicalMIMEHeaderKey k"
  from assms have "(k, vs) \<in> set (filter ?P h)" by simp
  then obtain xs ys where "filter ?P h = xs @ (k, vs) # ys"
    by (meson split_list)
  then have "supplied h (CanonicalMIMEHeaderKey k) =
      concat (map snd xs) @ vs @ concat (map snd ys)"
    by (simp add: supplied_def)
  then show ?thesis by blast
qed

lemma sent_JSON_body:
  assumes "\<not> useMultipartForm c" and "r \<in> set (sent (Run lib c ctx req tg))"
  shows "files req = [] \<and>
         (\<exists>v. marshal_vars (vars req) = Inr v \<and>
              ReqBody r = JSONBody (JObj [(''query'', JStr (toValidUTF8 (query req))), (''variables'', v)]) \<and>
              ((vars req = None \<and> v = JNull) \<or>
               (\<exists>m ms. vars req = Some m \<and>
                  v = JObj (map (\<lambda>kj. (toValidUTF8 (fst kj), snd kj)) ms) \<and>
                  map (\<lambda>kj. (fst kj, Encodes (snd kj))) ms = sort_key fst m))) \<and>
         Header_Get ''Content-Type'' (ReqHeader r) = ''application/json; charset=utf-8''"
proof -
  from Run_sent_JSON [OF assms(2,1)] obtain b where
    f: "files req = []" and
    b: "marshal_graphqlModel (query req) (vars req) = Inr b" and
    r: "r \<in> set (snd (dispatch lib c ctx req ''application/json; charset=utf-8'' (JSONBody b)))"
    by blast
  from b obtain v where v: "marshal_vars (vars req) = Inr v"
    and bv: "b = JObj [(''query'', JStr (toValidUTF8 (query req))), (''variables'', v)]"
    by (auto simp: marshal_graphqlModel_def split: sum.splits)
  from dispatch_sent [OF r] have body: "ReqBody r = JSONBody b"
    and vals: "\<And>n. Values (ReqHeader r) n =
          owned ''application/json; charset=utf-8'' n @ supplied (Header req) n"
    by simp_all
  have ct: "Header_Get ''Content-Type'' (ReqHeader r) = ''application/json; charset=utf-8''"
    by (rule Header_Get_owned(1) [OF vals vals])
  from f v bv body ct marshal_vars_cases [OF v] show ?thesis by simp
qed

lemma Run_JSON_sends_once:
  assumes "Err ctx = None" and "\<not> useMultipartForm c" and "files req = []"
    and "url_Parse lib (url c) = None" and "marshal_vars (vars req) = Inr v"
  shows "\<exists>r. sent (Run lib c ctx req tg) = [r]"
  using assms
  by (simp add: sent_Run marshal_graphqlModel_def dispatch_def http_NewRequest_def Let_def
      split: sum.split)

lemma Run_multipart_sends_once:
  assumes "Err ctx = None" and "useMultipartForm c"
    and "url_Parse lib (url c) = None" and "writeForm req = Inr ps"
  shows "\<exists>r. sent (Run lib c ctx req tg) = [r]"
  using assms
  by (simp add: sent_Run dispatch_def http_NewRequest_def Let_def split: sum.split)

text \<open>
  C5, as amended. Every request that a client in JSON mode hands to the transport (it
  carries no attachment: with attachments nothing is sent in this mode) has as its body the
  JSON object with the members \<^verbatim>\<open>query\<close> and \<^verbatim>\<open>variables\<close>. The first holds the query
  string of the request with U+FFFD in the place of every byte that is not part of
  well-formed UTF-8, hence the query string itself when that is valid UTF-8. The second is
  always there: \<^verbatim>\<open>null\<close> when no variable was ever set, otherwise the object of the entries of
  the map, in the order of their keys, each key written like the query. The content type of
  the request is \<^verbatim>\<open>application/json; charset=utf-8\<close>. This holds in both calling conventions.
\<close>

theorem JSON_mode_body:
  assumes "\<not> useMultipartForm c"
    and "r \<in> set (sent (Run lib c ctx req tg)) \<union>
             set (sent_legacy (Run_legacy lib c ctx req tg et))"
  shows "files req = [] \<and>
         (\<exists>v. marshal_vars (vars req) = Inr v \<and>
              ReqBody r =
                JSONBody (JObj [(''query'', JStr (toValidUTF8 (query req))), (''variables'', v)]) \<and>
              ((vars req = None \<and> v = JNull) \<or>
               (\<exists>m ms. vars req = Some m \<and>
                  v = JObj (map (\<lambda>kj. (toValidUTF8 (fst kj), snd kj)) ms) \<and>
                  map (\<lambda>kj. (fst kj, Encodes (snd kj))) ms = sort_key fst m))) \<and>
         (ValidString (query req) \<longrightarrow> toValidUTF8 (query req) = query req) \<and>
         Header_Get ''Content-Type'' (ReqHeader r) = ''application/json; charset=utf-8''"
proof -
  from assms(2) have "r \<in> set (sent (Run lib c ctx req tg))"
    by (simp add: sent_Run_legacy [of lib c ctx req tg et tg])
  from sent_JSON_body [OF assms(1) this] show ?thesis
    by (simp add: toValidUTF8_valid)
qed

theorem JSON_mode_body_witness:
  "\<not> useMultipartForm json_client \<and>
   hd (sent (Run lib0 json_client (Context None) (NewGraphqlRequest ''{ item }'') any_target))
     \<in> set (sent (Run lib0 json_client (Context None) (NewGraphqlRequest ''{ item }'') any_target)) \<union>
       set (sent_legacy (Run_legacy lib0 json_client (Context None)
              (NewGraphqlRequest ''{ item }'') any_target string_target)) \<and>
   ValidString (query (NewGraphqlRequest ''{ item }'')) \<and>
   files (NewGraphqlRequest ''{ item }'') = [] \<and>
   ReqBody (hd (sent (Run lib0 json_client (Context None) (NewGraphqlRequest ''{ item }'')
     any_target))) = JSONBody (JObj [(''query'', JStr ''{ item }''), (''variables'', JNull)]) \<and>
   Header_Get ''Content-Type'' (ReqHeader (hd (sent (Run lib0 json_client (Context None)
     (NewGraphqlRequest ''{ item }'') any_target)))) = ''application/json; charset=utf-8''"
proof -
  let ?req = "NewGraphqlRequest ''{ item }''"
  let ?r = "hd (sent (Run lib0 json_client (Context None) ?req any_target))"
  have h1: "\<not> useMultipartForm json_client" by code_simp
  have h2: "?r \<in> set (sent (Run lib0 json_client (Context None) ?req any_target)) \<union>
       set (sent_legacy (Run_legacy lib0 json_client (Context None) ?req any_target string_target))"
    by code_simp
  have v: "marshal_vars (vars ?req) = Inr JNull" by code_simp
  have q: "query ?req = ''{ item }''" by code_simp
  have u: "ValidString ''{ item }''" by code_simp
  from JSON_mode_body [OF h1 h2] h1 h2 v q u show ?thesis by auto
qed

text \<open>
  C5 as stated fails for a query that is not valid UTF-8: the query of the request is the
  three bytes \<^verbatim>\<open>a\<close>, \<^verbatim>\<open>0xFF\<close>, \<^verbatim>\<open>b\<close>, and the member \<^verbatim>\<open>query\<close> of the body sent holds
  \<^verbatim>\<open>a\<close>, U+FFFD, \<^verbatim>\<open>b\<close>.
\<close>

theorem JSON_mode_body_counterexample:
  "\<not> useMultipartForm json_client \<and>
   sent (Run lib0 json_client (Context None) (NewGraphqlRequest invalid_query) any_target) \<noteq> [] \<and>
   query (NewGraphqlRequest invalid_query) = [CHR ''a'', CHR 0xFF, CHR ''b''] \<and>
   ReqBody (hd (sent (Run lib0 json_client (Context None) (NewGraphqlRequest invalid_query)
     any_target))) =
     JSONBody (JObj [(''query'', JStr [CHR ''a'', CHR 0xEF, CHR 0xBF, CHR 0xBD, CHR ''b'']),
       (''variables'', JNull)])"
  by code_simp

text \<open>
  C7. In every request handed to the transport, the values of a header name are the value
  the client owns (the content type of the selected encoder under \<^verbatim>\<open>Content-Type\<close>,
  \<^verbatim>\<open>application/json; charset=utf-8\<close> under \<^verbatim>\<open>Accept\<close>, none under any other name), followed
  by the values the request gives for that name, entry by entry. So \<^verbatim>\<open>Content-Type\<close> and
  \<^verbatim>\<open>Accept\<close> still read as the client set them, and the values of every entry of the request
  are all there, together and in their order.
\<close>

theorem outgoing_headers:
  assumes "r \<in> set (sent (Run lib c ctx req tg)) \<union>
               set (sent_legacy (Run_legacy lib c ctx req tg et))"
  shows "(\<forall>n. Values (ReqHeader r) n =
               owned (encoderContentType lib c) n @ supplied (Header req) n) \<and>
         Header_Get ''Content-Type'' (ReqHeader r) = encoderContentType lib c \<and>
         Header_Get ''Accept'' (ReqHeader r) = ''application/json; charset=utf-8'' \<and>
         (\<forall>(k, vs) \<in> set (Header req).
            \<exists>pre post. Values (ReqHeader r) (CanonicalMIMEHeaderKey k) = pre @ vs @ post)"
proof -
  from assms have s: "r \<in> set (sent (Run lib c ctx req tg))"
    by (simp add: sent_Run_legacy [of lib c ctx req tg et tg])
  have "\<exists>b. r \<in> set (snd (dispatch lib c ctx req (encoderContentType lib c) b))"
  proof (cases "useMultipartForm c")
    case True
    with Run_sent_multipart [OF s True] show ?thesis
      by (auto simp: encoderContentType_def)
  next
    case False
    with Run_sent_JSON [OF s False] show ?thesis
      by (auto simp: encoderContentType_def)
  qed
  then obtain b where "r \<in> set (snd (dispatch lib c ctx req (encoderContentType lib c) b))" ..
  from dispatch_sent [OF this]
  have vals: "\<And>n. Values (ReqHeader r) n =
          owned (encoderContentType lib c) n @ supplied (Header req) n"
    by simp
  have "\<exists>pre post. Values (ReqHeader r) (CanonicalMIMEHeaderKey k) = pre @ vs @ post"
    if "(k, vs) \<in> set (Header req)" for k vs
  proof -
    from supplied_contains [OF that] obtain pre post where
      "supplied (Header req) (CanonicalMIMEHeaderKey k) = pre @ vs @ post" by blast
    then have "Values (ReqHeader r) (CanonicalMIMEHeaderKey k) =
        (owned (encoderContentType lib c) (CanonicalMIMEHeaderKey k) @ pre) @ vs @ post"
      by (simp add: vals)
    then show ?thesis by blast
  qed
  with vals Header_Get_owned [OF vals vals] show ?thesis by auto
qed


theorem outgoing_headers_witness:
  "hd (sent (Run lib0 json_client (Context None) with_header any_target))
     \<in> set (sent (Run lib0 json_client (Context None) with_header any_target)) \<union>
       set (sent_legacy (Run_legacy lib0 json_client (Context None) with_header any_target
              string_target)) \<and>
   Header with_header = [(''X-Test'', [''a'', ''b''])] \<and>
   Values (ReqHeader (hd (sent (Run lib0 json_client (Context None) with_header any_target))))
     ''X-Test'' = [''a'', ''b''] \<and>
   Header_Get ''Content-Type''
     (ReqHeader (hd (sent (Run lib0 json_client (Context None) with_header any_target)))) =
     ''application/json; charset=utf-8'' \<and>
   Header_Get ''Accept''
     (ReqHeader (hd (sent (Run lib0 json_client (Context None) with_header any_target)))) =
     ''application/json; charset=utf-8''"
proof -
  let ?r = "hd (sent (Run lib0 json_client (Context None) with_header any_target))"
  have h: "?r \<in> set (sent (Run lib0 json_client (Context None) with_header any_target)) \<union>
       set (sent_legacy (Run_legacy lib0 json_client (Context None) with_header any_target
              string_target))"
    by code_simp
  have hd: "Header with_header = [(''X-Test'', [''a'', ''b''])]" by code_simp
  have o: "owned ''application/json; charset=utf-8'' ''X-Test'' = []" by code_simp
  have s: "supplied [(''X-Test'', [''a'', ''b''])] ''X-Test'' = [''a'', ''b'']" by code_simp
  have e: "encoderContentType lib0 json_client = ''application/json; charset=utf-8''"
    by code_simp
  from outgoing_headers [OF h] have
    "Values (ReqHeader ?r) ''X-Test'' =
       owned (encoderContentType lib0 json_client) ''X-Test'' @ supplied (Header with_header) ''X-Test''"
    "Header_Get ''Content-Type'' (ReqHeader ?r) = encoderContentType lib0 json_client"
    "Header_Get ''Accept'' (ReqHeader ?r) = ''application/json; charset=utf-8''"
    by blast+
  with h hd show ?thesis by (simp add: o s e)
qed







lemma map_of_Encodes:
  "map_of (map (\<lambda>kj. (fst kj, Encodes (snd kj))) ms) k = map_option Encodes (map_of ms k)"
  by (induction ms) auto

lemma distinct_keys_sort:
  "distinct (map fst (sort_key fst m)) = distinct (map fst m)"
  by (simp add: distinct_map)

lemma map_of_sort_key:
  assumes "distinct (map fst m)"
  shows "map_of (sort_key fst m) = map_of m"
proof -
  have "distinct (map fst (sort_key fst m))" using assms by (simp add: distinct_keys_sort)
  from map_of_inject_set [OF this assms] show ?thesis by simp
qed

lemma afterVars_fields:
  "query (afterVars q calls) = q"
  "files (afterVars q calls) = []"
  "Header (afterVars q calls) = []"
  by (simp_all add: afterVars_def foldl_Var_fields NewGraphqlRequest_def)

lemma afterVars_vars:
  "vars (afterVars q calls) =
     (if calls = [] then None
      else Some (foldl (\<lambda>m kv. AList.update (fst kv) (snd kv) m) [] calls))"
  by (simp add: afterVars_def foldl_Var_vars NewGraphqlRequest_def)

lemma map_coerce_valid:
  assumes "\<forall>k \<in> fst ` set ms. ValidString k"
  shows "map (\<lambda>kj. (toValidUTF8 (fst kj), snd kj)) ms = ms"
  using assms by (induction ms) (simp_all add: toValidUTF8_valid)

text \<open>
  C8, as amended. A new request has no map of variables; the first \<^verbatim>\<open>Var\<close> call allocates
  it. After a sequence of \<^verbatim>\<open>Var\<close> calls the map gives to each key the value of the last call
  for that key. A client in JSON mode sends under \<^verbatim>\<open>variables\<close> one member for each key of
  this map, in the order of the keys, holding the encoding of the last value set; the name of
  the member is the key with U+FFFD in the place of every byte that is not part of
  well-formed UTF-8. So the object sent is exactly the map when the keys are valid UTF-8.
\<close>

theorem Var_last_write_wins:
  "vars (afterVars q []) = None \<and>
   (calls \<noteq> [] \<longrightarrow>
      (\<exists>m. vars (afterVars q calls) = Some m \<and> distinct (map fst m) \<and>
           (\<forall>k. map_of m k = map_of (rev calls) k))) \<and>
   (\<not> useMultipartForm c \<and>
    r \<in> set (sent (Run lib c ctx (afterVars q calls) tg)) \<union>
        set (sent_legacy (Run_legacy lib c ctx (afterVars q calls) tg et)) \<longrightarrow>
      (\<exists>v. ReqBody r = JSONBody (JObj [(''query'', JStr (toValidUTF8 q)), (''variables'', v)]) \<and>
           (calls = [] \<longrightarrow> v = JNull) \<and>
           (calls \<noteq> [] \<longrightarrow>
              (\<exists>ms. v = JObj (map (\<lambda>kj. (toValidUTF8 (fst kj), snd kj)) ms) \<and>
                    sorted (map fst ms) \<and> distinct (map fst ms) \<and>
                    (\<forall>k. map_option Encodes (map_of ms k) = map_of (rev calls) k) \<and>
                    ((\<forall>kv \<in> set calls. ValidString (fst kv)) \<longrightarrow> v = JObj ms)))))"
proof (intro conjI impI)
  show "vars (afterVars q []) = None" by (simp add: afterVars_vars)
next
  assume ne: "calls \<noteq> []"
  let ?m = "foldl (\<lambda>m kv. AList.update (fst kv) (snd kv) m) [] calls"
  have "vars (afterVars q calls) = Some ?m" using ne by (simp add: afterVars_vars)
  moreover have "distinct (map fst ?m)" by (rule distinct_foldl_update) simp
  moreover have "\<forall>k. map_of ?m k = map_of (rev calls) k"
    by (simp add: map_of_foldl_update split: option.split)
  ultimately show "\<exists>m. vars (afterVars q calls) = Some m \<and> distinct (map fst m) \<and>
           (\<forall>k. map_of m k = map_of (rev calls) k)" by blast
next
  assume a: "\<not> useMultipartForm c \<and>
    r \<in> set (sent (Run lib c ctx (afterVars q calls) tg)) \<union>
        set (sent_legacy (Run_legacy lib c ctx (afterVars q calls) tg et))"
  let ?req = "afterVars q calls"
  let ?m = "foldl (\<lambda>m kv. AList.update (fst kv) (snd kv) m) [] calls"
  from a have s: "r \<in> set (sent (Run lib c ctx ?req tg))"
    by (simp add: sent_Run_legacy [of lib c ctx ?req tg et tg])
  from a sent_JSON_body [OF _ s] obtain v where
    body: "ReqBody r = JSONBody (JObj [(''query'', JStr (toValidUTF8 q)), (''variables'', v)])" and
    cases: "(vars ?req = None \<and> v = JNull) \<or>
            (\<exists>m ms. vars ?req = Some m \<and>
                v = JObj (map (\<lambda>kj. (toValidUTF8 (fst kj), snd kj)) ms) \<and>
                map (\<lambda>kj. (fst kj, Encodes (snd kj))) ms = sort_key fst m)"
    by (auto simp: afterVars_fields)
  have empty: "v = JNull" if "calls = []"
    using cases that by (simp add: afterVars_vars)
  have nonempty: "\<exists>ms. v = JObj (map (\<lambda>kj. (toValidUTF8 (fst kj), snd kj)) ms) \<and>
                    sorted (map fst ms) \<and> distinct (map fst ms) \<and>
                    (\<forall>k. map_option Encodes (map_of ms k) = map_of (rev calls) k) \<and>
                    ((\<forall>kv \<in> set calls. ValidString (fst kv)) \<longrightarrow> v = JObj ms)"
    if ne: "calls \<noteq> []"
  proof -
    from cases ne obtain ms where v: "v = JObj (map (\<lambda>kj. (toValidUTF8 (fst kj), snd kj)) ms)"
      and ms: "map (\<lambda>kj. (fst kj, Encodes (snd kj))) ms = sort_key fst ?m"
      by (auto simp: afterVars_vars)
    have d: "distinct (map fst ?m)" by (rule distinct_foldl_update) simp
    have keys: "map fst ms = map fst (sort_key fst ?m)"
      using arg_cong [OF ms, of "map fst"] by (simp add: comp_def)
    have srt: "sorted (map fst ms)" by (simp add: keys)
    have dst: "distinct (map fst ms)" using d by (simp add: keys distinct_keys_sort)
    have look: "map_option Encodes (map_of ms k) = map_of (rev calls) k" for k
    proof -
      have "map_option Encodes (map_of ms k) = map_of (sort_key fst ?m) k"
        using map_of_Encodes [of ms k] by (simp add: ms)
      also have "\<dots> = map_of ?m k" by (simp add: map_of_sort_key [OF d])
      also have "\<dots> = map_of (rev calls) k"
        by (simp add: map_of_foldl_update split: option.split)
      finally show ?thesis .
    qed
    have valid: "v = JObj ms" if val: "\<forall>kv \<in> set calls. ValidString (fst kv)"
    proof -
      have "ValidString k" if k: "k \<in> fst ` set ms" for k
      proof -
        from k have "map_of ms k \<noteq> None"
          by (simp add: map_of_eq_None_iff)
        then have "map_of (rev calls) k \<noteq> None"
          using look [of k, symmetric] by (cases "map_of ms k") simp_all
        then have "k \<in> fst ` set calls"
          by (simp add: map_of_eq_None_iff)
        with val show ?thesis by auto
      qed
      then show ?thesis by (simp add: v map_coerce_valid)
    qed
    from v srt dst look valid show ?thesis by blast
  qed
  from body empty nonempty
  show "\<exists>v. ReqBody r = JSONBody (JObj [(''query'', JStr (toValidUTF8 q)), (''variables'', v)]) \<and>
           (calls = [] \<longrightarrow> v = JNull) \<and>
           (calls \<noteq> [] \<longrightarrow>
              (\<exists>ms. v = JObj (map (\<lambda>kj. (toValidUTF8 (fst kj), snd kj)) ms) \<and>
                    sorted (map fst ms) \<and> distinct (map fst ms) \<and>
                    (\<forall>k. map_option Encodes (map_of ms k) = map_of (rev calls) k) \<and>
                    ((\<forall>kv \<in> set calls. ValidString (fst kv)) \<longrightarrow> v = JObj ms)))"
    by blast
qed

theorem Var_last_write_wins_witness:
  "var_calls \<noteq> [] \<and> \<not> useMultipartForm json_client \<and>
   hd (sent (Run lib0 json_client (Context None) (afterVars ''{ item }'' var_calls) any_target))
     \<in> set (sent (Run lib0 json_client (Context None) (afterVars ''{ item }'' var_calls)
              any_target)) \<union>
       set (sent_legacy (Run_legacy lib0 json_client (Context None)
              (afterVars ''{ item }'' var_calls) any_target string_target)) \<and>
   list_all (\<lambda>kv. ValidString (fst kv)) var_calls \<and>
   (\<exists>m. vars (afterVars ''{ item }'' var_calls) = Some m \<and>
        map_of m ''b'' = Some (Encodes (JNum 2)) \<and> map_of m ''a'' = Some (Encodes (JStr ''v''))) \<and>
   (\<exists>ms. ReqBody (hd (sent (Run lib0 json_client (Context None)
            (afterVars ''{ item }'' var_calls) any_target))) =
            JSONBody (JObj [(''query'', JStr ''{ item }''), (''variables'', JObj ms)]) \<and>
         map_of ms ''b'' = Some (JNum 2) \<and> map_of ms ''a'' = Some (JStr ''v''))"
proof -
  let ?req = "afterVars ''{ item }'' var_calls"
  let ?r = "hd (sent (Run lib0 json_client (Context None) ?req any_target))"
  have h0: "var_calls \<noteq> []" by code_simp
  have h1: "\<not> useMultipartForm json_client" by code_simp
  have h2: "?r \<in> set (sent (Run lib0 json_client (Context None) ?req any_target)) \<union>
       set (sent_legacy (Run_legacy lib0 json_client (Context None) ?req any_target string_target))"
    by code_simp
  have h3: "list_all (\<lambda>kv. ValidString (fst kv)) var_calls" by code_simp
  then have h3': "\<forall>kv \<in> set var_calls. ValidString (fst kv)" by (simp add: list_all_iff)
  have u: "toValidUTF8 ''{ item }'' = ''{ item }''" by code_simp
  have b: "map_of (rev var_calls) ''b'' = Some (Encodes (JNum 2))" by code_simp
  have a: "map_of (rev var_calls) ''a'' = Some (Encodes (JStr ''v''))" by code_simp
  note w = Var_last_write_wins [where q = "''{ item }''" and calls = var_calls
      and c = json_client and r = ?r and lib = lib0 and ctx = "Context None"
      and tg = any_target and et = string_target]
  from w h0 obtain m where m: "vars ?req = Some m" "\<forall>k. map_of m k = map_of (rev var_calls) k"
    by blast
  from w h1 h2 obtain v where
    v: "ReqBody ?r = JSONBody (JObj [(''query'', JStr (toValidUTF8 ''{ item }'')),
          (''variables'', v)])"
      "var_calls \<noteq> [] \<longrightarrow>
         (\<exists>ms. v = JObj (map (\<lambda>kj. (toValidUTF8 (fst kj), snd kj)) ms) \<and>
               sorted (map fst ms) \<and> distinct (map fst ms) \<and>
               (\<forall>k. map_option Encodes (map_of ms k) = map_of (rev var_calls) k) \<and>
               ((\<forall>kv \<in> set var_calls. ValidString (fst kv)) \<longrightarrow> v = JObj ms))"
    by blast
  from v(2) h0 h3' obtain ms where
    vm: "v = JObj ms" and
    look: "\<forall>k. map_option Encodes (map_of ms k) = map_of (rev var_calls) k"
    by blast
  note ms = v(1) [unfolded vm] look
  have kb: "map_of ms ''b'' = Some (JNum 2)"
    using ms(2) [rule_format, of "''b''"] b by (cases "map_of ms ''b''") auto
  have ka: "map_of ms ''a'' = Some (JStr ''v'')"
    using ms(2) [rule_format, of "''a''"] a by (cases "map_of ms ''a''") auto
  from m a b ms(1) h0 h1 h2 h3 ka kb u show ?thesis by simp
qed

text \<open>
  C8 as stated fails for keys that are not valid UTF-8: after \<^verbatim>\<open>Var\<close> calls with the keys
  \<^verbatim>\<open>0xFF\<close> and \<^verbatim>\<open>0xFE\<close> the map has these two keys, and the object sent under \<^verbatim>\<open>variables\<close> has
  two members that are both named U+FFFD.
\<close>

theorem Var_last_write_wins_counterexample:
  "\<not> useMultipartForm json_client \<and>
   vars (afterVars ''{ item }'' invalid_key_calls) =
     Some [([CHR 0xFF], Encodes (JNum 1)), ([CHR 0xFE], Encodes (JNum 2))] \<and>
   sent (Run lib0 json_client (Context None) (afterVars ''{ item }'' invalid_key_calls)
     any_target) \<noteq> [] \<and>
   ReqBody (hd (sent (Run lib0 json_client (Context None)
     (afterVars ''{ item }'' invalid_key_calls) any_target))) =
     JSONBody (JObj [(''query'', JStr ''{ item }''),
       (''variables'', JObj [([CHR 0xEF, CHR 0xBF, CHR 0xBD], JNum 2),
                             ([CHR 0xEF, CHR 0xBF, CHR 0xBD], JNum 1)])])"
  by code_simp

end
